theory Spec2Isabelle
  imports Complex_Main "HOL-Library.Log_Nat"
begin

section \<open>Storage folding: the intermediate representation\<close>

text \<open>
  The pass of \<^verbatim>\<open>StorageFolding.cpp\<close> rewrites statement trees of the compiler's
  intermediate representation. The node classes themselves are declared in headers that
  are not part of the excerpt; the datatypes below give the nodes the pass constructs or
  inspects, in the scalar fragment that exists when the pass runs (before storage
  flattening: no loads, stores or allocations yet). The binary operators share one
  constructor \<open>Bin\<close>.
\<close>

datatype Type = Int_t nat | UInt_t nat | Float_t nat | Handle_t

fun is_handle :: "Type \<Rightarrow> bool" where
  "is_handle Handle_t = True"
| "is_handle _ = False"

datatype CallType =
  Call_Image | Call_Extern | Call_ExternCPlusPlus | Call_PureExtern
  | Call_Halide | Call_Intrinsic | Call_PureIntrinsic

datatype ForType = Serial | Parallel | Vectorized | Unrolled

datatype DeviceAPI = DeviceAPI_None | DeviceAPI_Host | DeviceAPI_Default_GPU

datatype BinOp =
  Add | Sub | Mul | Div | Mod | Min_op | Max_op
  | EQ | NE | LT | LE | GT | GE | And | Or

datatype Expr =
    IntImm int
  | StringImm string
  | Variable Type string
  | Bin BinOp Expr Expr
  | Not_e Expr
  | Select Expr Expr Expr
  | Call Type string "Expr list" CallType
  | Let_e string Expr Expr

datatype Stmt =
    LetStmt string Expr Stmt
  | AssertStmt Expr Expr
  | ProducerConsumer string bool Stmt
  | For string Expr Expr ForType DeviceAPI Stmt
  | Acquire Expr Expr Stmt
  | Provide string "Expr list" "Expr list"
  | Realize string "Type list" "(Expr \<times> Expr) list" Expr Stmt
  | Block Stmt Stmt
  | IfThenElse Expr Stmt "Stmt option"
  | Evaluate Expr

text \<open>
  \<open>Provide name values args\<close> writes \<open>values\<close> at the site \<open>args\<close> of buffer \<open>name\<close>;
  \<open>Realize name types bounds condition body\<close> allocates \<open>name\<close> over \<open>bounds\<close>, a list of
  (min, extent) ranges; \<open>ProducerConsumer name is_producer body\<close> marks the production or
  the consumption of \<open>name\<close>.
\<close>

subsection \<open>Failures\<close>

text \<open>
  \<^verbatim>\<open>internal_assert\<close> and \<^verbatim>\<open>user_assert\<close> abort the compilation; an index
  past the end of a \<^verbatim>\<open>std::vector\<close> and a non-finite value cast to an integer have
  no defined behaviour in the source language. Each is a value of the model.
\<close>

datatype error = InternalError | UserError string | UndefinedBehaviour

subsection \<open>Collaborators\<close>

datatype Monotonic = Constant | Increasing | Decreasing | Unknown

datatype Direction = Upper | Lower

type_synonym Interval = "Expr \<times> Expr"
type_synonym Box = "Interval list"

text \<open>
  The simplifier, the bounds and monotonicity analyses, substitution and the helpers on
  constants live in files outside the excerpt. The pass is modelled for every choice of
  them: they are the fields of a record that each function of the model receives.
\<close>

record oracles =
  simplify :: "Expr \<Rightarrow> Expr"
  box_provided :: "Stmt \<Rightarrow> string \<Rightarrow> Box"
  box_required :: "Stmt \<Rightarrow> string \<Rightarrow> Box"
  box_union :: "Box \<Rightarrow> Box \<Rightarrow> Box"
  box_contains :: "Box \<Rightarrow> Box \<Rightarrow> bool"
  expr_uses_var :: "Expr \<Rightarrow> string \<Rightarrow> bool"
  is_monotonic :: "Expr \<Rightarrow> string \<Rightarrow> Monotonic"
  substitute :: "string \<Rightarrow> Expr \<Rightarrow> Expr \<Rightarrow> Expr"
  find_constant_bound :: "Expr \<Rightarrow> Direction \<Rightarrow> (string \<times> Interval) list \<Rightarrow> Expr"
  as_const_int :: "Expr \<Rightarrow> int option"
  is_const :: "Expr \<Rightarrow> bool"
  is_one :: "Expr \<Rightarrow> bool"
  can_prove :: "Expr \<Rightarrow> bool"

section \<open>The index rewriter: \<^verbatim>\<open>FoldStorageOfFunction\<close>\<close>

text \<open>
  A mutator returns a node together with the flag \<^verbatim>\<open>same_as\<close>: whether the node it
  returns is the very node it was given (pointer identity in the source), which the
  callers test to decide whether to rebuild their own node. The base class
  \<^verbatim>\<open>IRMutator\<close> mutates the children of a node and returns the node itself when
  every child came back identical.
\<close>

type_synonym 'a mutated = "error + ('a \<times> bool)"

definition unchanged :: "'a \<Rightarrow> 'a mutated" where
  "unchanged x = Inr (x, True)"

definition lift1 :: "('a \<Rightarrow> 'b) \<Rightarrow> 'a mutated \<Rightarrow> 'b mutated" where
  "lift1 f ma = (case ma of Inl e \<Rightarrow> Inl e | Inr (a, sa) \<Rightarrow> Inr (f a, sa))"

definition lift2 :: "('a \<Rightarrow> 'b \<Rightarrow> 'c) \<Rightarrow> 'a mutated \<Rightarrow> 'b mutated \<Rightarrow> 'c mutated" where
  "lift2 f ma mb =
     (case ma of Inl e \<Rightarrow> Inl e
      | Inr (a, sa) \<Rightarrow>
         (case mb of Inl e \<Rightarrow> Inl e
          | Inr (b, sb) \<Rightarrow> Inr (f a b, sa \<and> sb)))"

definition lift3 ::
  "('a \<Rightarrow> 'b \<Rightarrow> 'c \<Rightarrow> 'd) \<Rightarrow> 'a mutated \<Rightarrow> 'b mutated \<Rightarrow> 'c mutated \<Rightarrow> 'd mutated" where
  "lift3 f ma mb mc =
     (case ma of Inl e \<Rightarrow> Inl e
      | Inr (a, sa) \<Rightarrow>
         (case mb of Inl e \<Rightarrow> Inl e
          | Inr (b, sb) \<Rightarrow>
             (case mc of Inl e \<Rightarrow> Inl e
              | Inr (c, sc) \<Rightarrow> Inr (f a b c, sa \<and> sb \<and> sc))))"

text \<open>
  \<^verbatim>\<open>args[dim] = is_one(factor) ? 0 : (args[dim] % factor)\<close>, on a vector that has
  position \<open>dim\<close>.
\<close>

definition fold_arg :: "oracles \<Rightarrow> Expr \<Rightarrow> Expr \<Rightarrow> Expr" where
  "fold_arg orc factor arg = (if is_one orc factor then IntImm 0 else Bin Mod arg factor)"

text \<open>
  \<^verbatim>\<open>visit(const Call *)\<close>: the base class first, then, for a call of type
  \<^verbatim>\<open>Call::Halide\<close> to \<open>func\<close>, the assertion \<^verbatim>\<open>dim < args.size()\<close> and a new
  node. All other expressions take the base class's traversal.
\<close>

fun FoldStorageOfFunction_expr :: "oracles \<Rightarrow> string \<Rightarrow> nat \<Rightarrow> Expr \<Rightarrow> Expr \<Rightarrow> Expr mutated"
  and FoldStorageOfFunction_exprs ::
    "oracles \<Rightarrow> string \<Rightarrow> nat \<Rightarrow> Expr \<Rightarrow> Expr list \<Rightarrow> (Expr list) mutated" where
  "FoldStorageOfFunction_expr orc func d factor (IntImm v) = unchanged (IntImm v)"
| "FoldStorageOfFunction_expr orc func d factor (StringImm s) = unchanged (StringImm s)"
| "FoldStorageOfFunction_expr orc func d factor (Variable t n) = unchanged (Variable t n)"
| "FoldStorageOfFunction_expr orc func d factor (Bin bop a b) =
     lift2 (Bin bop) (FoldStorageOfFunction_expr orc func d factor a)
       (FoldStorageOfFunction_expr orc func d factor b)"
| "FoldStorageOfFunction_expr orc func d factor (Not_e a) =
     lift1 Not_e (FoldStorageOfFunction_expr orc func d factor a)"
| "FoldStorageOfFunction_expr orc func d factor (Select c a b) =
     lift3 Select (FoldStorageOfFunction_expr orc func d factor c)
       (FoldStorageOfFunction_expr orc func d factor a)
       (FoldStorageOfFunction_expr orc func d factor b)"
| "FoldStorageOfFunction_expr orc func d factor (Let_e n v b) =
     lift2 (Let_e n) (FoldStorageOfFunction_expr orc func d factor v)
       (FoldStorageOfFunction_expr orc func d factor b)"
| "FoldStorageOfFunction_expr orc func d factor (Call t name args ct) =
     (case FoldStorageOfFunction_exprs orc func d factor args of
        Inl e \<Rightarrow> Inl e
      | Inr (args', same) \<Rightarrow>
          if name = func \<and> ct = Call_Halide then
            (if d < length args'
             then Inr (Call t name (args'[d := fold_arg orc factor (args' ! d)]) ct, False)
             else Inl InternalError)
          else Inr (Call t name args' ct, same))"
| "FoldStorageOfFunction_exprs orc func d factor [] = unchanged []"
| "FoldStorageOfFunction_exprs orc func d factor (x # xs) =
     lift2 (#) (FoldStorageOfFunction_expr orc func d factor x)
       (FoldStorageOfFunction_exprs orc func d factor xs)"

fun FoldStorageOfFunction_region ::
  "oracles \<Rightarrow> string \<Rightarrow> nat \<Rightarrow> Expr \<Rightarrow> (Expr \<times> Expr) list \<Rightarrow> ((Expr \<times> Expr) list) mutated" where
  "FoldStorageOfFunction_region orc func d factor [] = unchanged []"
| "FoldStorageOfFunction_region orc func d factor ((mn, ext) # rs) =
     lift2 (#)
       (lift2 Pair (FoldStorageOfFunction_expr orc func d factor mn)
          (FoldStorageOfFunction_expr orc func d factor ext))
       (FoldStorageOfFunction_region orc func d factor rs)"

text \<open>
  \<^verbatim>\<open>visit(const Provide *)\<close>: the base class first (the sites, then the values), then,
  for a write to \<open>func\<close>, a new node with position \<open>dim\<close> replaced. Nothing checks \<open>dim\<close>
  here: past the end of the vector the write has no defined behaviour.
\<close>

fun FoldStorageOfFunction :: "oracles \<Rightarrow> string \<Rightarrow> nat \<Rightarrow> Expr \<Rightarrow> Stmt \<Rightarrow> Stmt mutated" where
  "FoldStorageOfFunction orc func d factor (LetStmt n v b) =
     lift2 (LetStmt n) (FoldStorageOfFunction_expr orc func d factor v)
       (FoldStorageOfFunction orc func d factor b)"
| "FoldStorageOfFunction orc func d factor (AssertStmt c m) =
     lift2 AssertStmt (FoldStorageOfFunction_expr orc func d factor c)
       (FoldStorageOfFunction_expr orc func d factor m)"
| "FoldStorageOfFunction orc func d factor (ProducerConsumer n p b) =
     lift1 (ProducerConsumer n p) (FoldStorageOfFunction orc func d factor b)"
| "FoldStorageOfFunction orc func d factor (For n mn ext ft api b) =
     lift3 (\<lambda>mn' ext' b'. For n mn' ext' ft api b')
       (FoldStorageOfFunction_expr orc func d factor mn)
       (FoldStorageOfFunction_expr orc func d factor ext)
       (FoldStorageOfFunction orc func d factor b)"
| "FoldStorageOfFunction orc func d factor (Acquire sem cnt b) =
     lift3 Acquire (FoldStorageOfFunction_expr orc func d factor sem)
       (FoldStorageOfFunction_expr orc func d factor cnt)
       (FoldStorageOfFunction orc func d factor b)"
| "FoldStorageOfFunction orc func d factor (Provide name values args) =
     (case lift2 Pair (FoldStorageOfFunction_exprs orc func d factor args)
             (FoldStorageOfFunction_exprs orc func d factor values) of
        Inl e \<Rightarrow> Inl e
      | Inr ((args', values'), same) \<Rightarrow>
          if name = func then
            (if d < length args'
             then Inr (Provide name values' (args'[d := fold_arg orc factor (args' ! d)]),
                       False)
             else Inl UndefinedBehaviour)
          else Inr (Provide name values' args', same))"
| "FoldStorageOfFunction orc func d factor (Realize n ts bounds c b) =
     lift3 (\<lambda>bounds' b' c'. Realize n ts bounds' c' b')
       (FoldStorageOfFunction_region orc func d factor bounds)
       (FoldStorageOfFunction orc func d factor b)
       (FoldStorageOfFunction_expr orc func d factor c)"
| "FoldStorageOfFunction orc func d factor (Block a b) =
     lift2 Block (FoldStorageOfFunction orc func d factor a)
       (FoldStorageOfFunction orc func d factor b)"
| "FoldStorageOfFunction orc func d factor (IfThenElse c t el) =
     lift3 IfThenElse (FoldStorageOfFunction_expr orc func d factor c)
       (FoldStorageOfFunction orc func d factor t)
       (case el of None \<Rightarrow> unchanged None
        | Some s \<Rightarrow> lift1 Some (FoldStorageOfFunction orc func d factor s))"
| "FoldStorageOfFunction orc func d factor (Evaluate v) =
     lift1 Evaluate (FoldStorageOfFunction_expr orc func d factor v)"

section \<open>Schedule metadata and fold records\<close>

text \<open>
  The schedule of a function (\<^verbatim>\<open>Function\<close>, \<^verbatim>\<open>StorageDim\<close>) is declared outside the
  excerpt; the records keep the fields the pass reads: the name
  (\<^verbatim>\<open>func.name()\<close>), the storage dimensions with their variable, their declared fold
  factor (an undefined expression is \<open>None\<close>) and their declared direction
  (\<^verbatim>\<open>func.schedule().storage_dims()\<close>), and the flag \<^verbatim>\<open>func.schedule().async()\<close>.
  \<^verbatim>\<open>Semaphore\<close> is the struct of lines 90-94 and \<^verbatim>\<open>Fold\<close> the struct of lines 323-327.
\<close>

record StorageDim =
  var :: string
  fold_factor :: "Expr option"
  fold_forward :: bool

record Function =
  func_name :: string
  storage_dims :: "StorageDim list"
  async :: bool

record Semaphore =
  sema_name :: string
  sema_var :: Expr
  sema_init :: Expr

record Fold =
  fold_dim :: nat
  factor_of :: Expr
  semaphore :: "Semaphore option"

text \<open>
  Modelled from the spec: \<^verbatim>\<open>unique_name\<close> is called at line 249 and defined outside the
  excerpt. The specification counts name generation among the "global mutable counters"
  of the process; the model threads that counter through the pass as a natural number
  and renders it in decimal after the prefix character, so that two calls never return
  the same name.
\<close>

definition digit :: "nat \<Rightarrow> char" where
  "digit n = ''0123456789'' ! n"

fun to_string :: "nat \<Rightarrow> string" where
  "to_string n =
     (if n < 10 then [digit n]
      else to_string (n div 10) @ [digit (n mod 10)])"

definition unique_name :: "char \<Rightarrow> nat \<Rightarrow> string \<times> nat" where
  "unique_name prefix counter = (prefix # to_string counter, Suc counter)"

text \<open>
  Lines 17-19: \<^verbatim>\<open>1 << (int64_t) ceil(log2(x))\<close>. For \<open>x \<le> 0\<close> the logarithm is not a
  finite number and its conversion to an integer has no defined behaviour. The real
  logarithm is taken exactly here, where the source goes through a \<^verbatim>\<open>double\<close>; the two
  agree on every argument below \<open>2 ^ 53\<close>, and the pass calls the function with at most
  1024 (line 230). \<open>static_cast_int\<close> is the conversion to a 32-bit \<^verbatim>\<open>int\<close> of line 231.
\<close>

definition next_power_of_two :: "int \<Rightarrow> error + int" where
  "next_power_of_two x =
     (if x \<le> 0 \<or> 2 ^ 62 < x then Inl UndefinedBehaviour
      else Inr (push_bit (ceillog2 (nat x)) 1))"

definition static_cast_int :: "int \<Rightarrow> int" where
  "static_cast_int v = (v + 2 ^ 31) mod 2 ^ 32 - 2 ^ 31"

text \<open>
  Lines 129-131: the loop variable and the two variables that name the loop's bounds.
\<close>

definition loop_var :: "string \<Rightarrow> Expr" where
  "loop_var op_name = Variable (Int_t 32) op_name"

definition loop_min :: "string \<Rightarrow> Expr" where
  "loop_min op_name = Variable (Int_t 32) (op_name @ ''.loop_min'')"

definition loop_max :: "string \<Rightarrow> Expr" where
  "loop_max op_name = Variable (Int_t 32) (op_name @ ''.loop_max'')"

text \<open>
  Lines 143-151: the declared factor counts only when the bounds of the axis depend on
  the loop variable.
\<close>

definition explicit_factor :: "oracles \<Rightarrow> string \<Rightarrow> StorageDim \<Rightarrow> Expr \<Rightarrow> Expr \<Rightarrow> Expr option" where
  "explicit_factor orc op_name storage_dim mn mx =
     (if expr_uses_var orc mn op_name \<or> expr_uses_var orc mx op_name
      then fold_factor storage_dim else None)"

text \<open>
  Lines 135-141: the simplified bounds of one axis. The source indexes the three boxes
  with \<open>i - 1\<close> unchecked; \<open>try_dim\<close> below makes an index past the end of \<open>provided\<close>,
  \<open>required\<close> or the storage dimensions an undefined behaviour.
\<close>

record axis_bounds =
  box_min :: Expr
  box_max :: Expr
  min_provided :: Expr
  max_provided :: Expr
  min_required :: Expr
  max_required :: Expr

definition axis_bounds_at :: "oracles \<Rightarrow> Box \<Rightarrow> Box \<Rightarrow> Box \<Rightarrow> nat \<Rightarrow> axis_bounds" where
  "axis_bounds_at orc provided required box d =
     \<lparr>box_min = simplify orc (fst (box ! d)),
      box_max = simplify orc (snd (box ! d)),
      min_provided = simplify orc (fst (provided ! d)),
      max_provided = simplify orc (snd (provided ! d)),
      min_required = simplify orc (fst (required ! d)),
      max_required = simplify orc (snd (required ! d))\<rparr>"

text \<open>
  Lines 159-174: the automatic classification, skipped altogether in \<open>explicit_only\<close> mode.
\<close>

definition monotonic_fold ::
  "oracles \<Rightarrow> Function \<Rightarrow> bool \<Rightarrow> string \<Rightarrow> axis_bounds \<Rightarrow> bool \<times> bool" where
  "monotonic_fold orc func explicit_only op_name ax =
     (if \<not> explicit_only then
        (let can_fold_forwards = (is_monotonic orc (box_min ax) op_name = Increasing);
             can_fold_backwards = (is_monotonic orc (box_max ax) op_name = Decreasing)
         in if async func
            then (can_fold_forwards \<and> is_monotonic orc (max_provided ax) op_name = Increasing,
                  can_fold_backwards \<and> is_monotonic orc (min_provided ax) op_name = Decreasing)
            else (can_fold_forwards, can_fold_backwards))
      else (False, False))"

text \<open>
  Lines 176-208: without a monotonic direction and with a declared factor, the direction
  the schedule declares is taken on trust and asserted at run time in front of the body.
\<close>

definition bad_fold_condition :: "oracles \<Rightarrow> Function \<Rightarrow> string \<Rightarrow> StorageDim \<Rightarrow> axis_bounds \<Rightarrow> Expr" where
  "bad_fold_condition orc func op_name storage_dim ax =
     (let next_var = Bin Add (loop_var op_name) (IntImm 1) in
      if fold_forward storage_dim then
        (let min_next = substitute orc op_name next_var (box_min ax);
             condition = Bin GE min_next (box_min ax)
         in if async func
            then Bin And condition
                   (Bin GE (substitute orc op_name next_var (max_provided ax)) (max_provided ax))
            else condition)
      else
        (let max_next = substitute orc op_name next_var (box_max ax);
             condition = Bin LE max_next (box_max ax)
         in if async func
            then Bin And condition
                   (Bin LE (substitute orc op_name next_var (min_provided ax)) (min_provided ax))
            else condition))"

definition asserted_fold ::
  "oracles \<Rightarrow> Function \<Rightarrow> string \<Rightarrow> StorageDim \<Rightarrow> Expr option \<Rightarrow> axis_bounds
   \<Rightarrow> bool \<times> bool \<Rightarrow> Stmt \<times> bool \<Rightarrow> (bool \<times> bool) \<times> (Stmt \<times> bool)" where
  "asserted_fold orc func op_name storage_dim ef ax can_fold body =
     (if \<not> fst can_fold \<and> \<not> snd can_fold \<and> ef \<noteq> None then
        (let condition = bad_fold_condition orc func op_name storage_dim ax;
             error = Call (Int_t 32) ''halide_error_bad_fold''
                       [StringImm (func_name func), StringImm (var storage_dim), StringImm op_name]
                       Call_Extern
         in ((fold_forward storage_dim, \<not> fold_forward storage_dim),
             (Block (AssertStmt condition error) (fst body), False)))
      else (can_fold, body))"

text \<open>
  Lines 212-237: the extent of the axis, and the factor: the declared one, guarded by an
  assertion, or else the next power of two above the constant bound of the extent, if
  that bound is a constant not above \<open>max_fold\<close>.
\<close>

definition extent_of :: "oracles \<Rightarrow> axis_bounds \<Rightarrow> Expr" where
  "extent_of orc ax = simplify orc (Bin Add (Bin Sub (box_max ax) (box_min ax)) (IntImm 1))"

definition max_fold :: int where
  "max_fold = 1024"

definition automatic_factor :: "oracles \<Rightarrow> string \<Rightarrow> Expr \<Rightarrow> error + Expr option" where
  "automatic_factor orc op_name extent =
     (let max_extent =
            find_constant_bound orc extent Upper [(op_name, (loop_min op_name, loop_max op_name))]
      in case as_const_int orc max_extent of
           Some const_max_extent \<Rightarrow>
             if const_max_extent \<le> max_fold then
               (case next_power_of_two const_max_extent of
                  Inl e \<Rightarrow> Inl e
                | Inr p \<Rightarrow> Inr (Some (IntImm (static_cast_int p))))
             else Inr None
         | None \<Rightarrow> Inr None)"

definition choose_factor ::
  "oracles \<Rightarrow> Function \<Rightarrow> string \<Rightarrow> StorageDim \<Rightarrow> Expr option \<Rightarrow> Expr \<Rightarrow> Stmt \<times> bool
   \<Rightarrow> error + (Expr option \<times> (Stmt \<times> bool))" where
  "choose_factor orc func op_name storage_dim ef extent body =
     (case ef of
        Some f \<Rightarrow>
          (let error = Call (Int_t 32) ''halide_error_fold_factor_too_small''
                         [StringImm (func_name func), StringImm (var storage_dim), f,
                          StringImm op_name, extent]
                         Call_Extern
           in Inr (Some f, (Block (AssertStmt (Bin LE extent f) error) (fst body), False)))
      | None \<Rightarrow>
          (case automatic_factor orc op_name extent of
             Inl e \<Rightarrow> Inl e
           | Inr factor \<Rightarrow> Inr (factor, body)))"

text \<open>
  Lines 246-289: the semaphore of an asynchronous fold. \<open>semaphore_amounts\<close> are lines
  254-265, \<open>fudge_of\<close> is line 277, and \<open>async_fold\<close> returns the semaphore, the bracketed
  body and the advanced name counter.
\<close>

definition likely :: "Expr \<Rightarrow> Expr" where
  "likely e = Call (Int_t 32) ''likely'' [e] Call_PureIntrinsic"

definition semaphore_amounts :: "oracles \<Rightarrow> string \<Rightarrow> bool \<Rightarrow> axis_bounds \<Rightarrow> Expr \<times> Expr" where
  "semaphore_amounts orc op_name can_fold_forwards ax =
     (let prev_var = Bin Sub (loop_var op_name) (IntImm 1);
          next_var = Bin Add (loop_var op_name) (IntImm 1)
      in if can_fold_forwards then
           (let max_provided_prev = substitute orc op_name prev_var (max_provided ax);
                min_required_next = substitute orc op_name next_var (min_required ax)
            in (Bin Sub (max_provided ax) max_provided_prev,
                Bin Sub min_required_next (min_required ax)))
         else
           (let min_provided_prev = substitute orc op_name prev_var (min_provided ax);
                max_required_next = substitute orc op_name next_var (max_required ax)
            in (Bin Sub min_provided_prev (min_provided ax),
                Bin Sub (max_required ax) max_required_next)))"

definition fudge_of :: "oracles \<Rightarrow> string \<Rightarrow> Expr \<Rightarrow> Expr \<Rightarrow> Expr" where
  "fudge_of orc op_name extent to_acquire =
     simplify orc (substitute orc op_name (loop_min op_name) (Bin Sub extent to_acquire))"

definition async_fold ::
  "oracles \<Rightarrow> Function \<Rightarrow> string \<Rightarrow> bool \<Rightarrow> Expr \<Rightarrow> Expr \<Rightarrow> axis_bounds
   \<Rightarrow> Stmt \<Rightarrow> nat \<Rightarrow> Semaphore \<times> Stmt \<times> nat" where
  "async_fold orc func op_name can_fold_forwards factor extent ax body counter =
     (let (suffix, counter') = unique_name CHR ''_'' counter;
          name = func_name func @ ''.folding_semaphore.'' @ suffix;
          sema_v = Variable Handle_t name;
          (to_acquire, to_release) = semaphore_amounts orc op_name can_fold_forwards ax;
          fudge = fudge_of orc op_name extent to_acquire;
          init = (if is_const orc fudge then Bin Sub factor fudge else factor);
          to_acquire' =
            (if is_const orc fudge then to_acquire
             else Select (Bin GT (loop_var op_name) (loop_min op_name)) (likely to_acquire) extent);
          release_producer =
            Call (Int_t 32) ''halide_semaphore_release'' [sema_v, to_release] Call_Extern;
          body' = Block body (Evaluate release_producer);
          body'' = Acquire sema_v to_acquire' body'
      in (\<lparr>sema_name = name, sema_var = sema_v, sema_init = init\<rparr>, body'', counter'))"

text \<open>
  One round of the loop over the axes (lines 134-304) either leaves \<^verbatim>\<open>visit(For)\<close> with
  its result (\<open>Returned\<close>, lines 298-303) or goes on to the next axis (\<open>Continuing\<close>). Both
  carry the body, whether it is still the loop's own body, the folds recorded so far
  and the name counter. \<open>apply_fold\<close> is lines 239-304, \<open>try_dim\<close> one round, and
  \<open>fold_dims\<close> the loop, from the outermost axis in.
\<close>

datatype step =
    Returned Stmt bool "Fold list" nat
  | Continuing Stmt bool "Fold list" nat

definition apply_fold ::
  "oracles \<Rightarrow> Function \<Rightarrow> string \<Rightarrow> nat \<Rightarrow> bool \<Rightarrow> Expr \<Rightarrow> Expr \<Rightarrow> axis_bounds
   \<Rightarrow> Stmt \<times> bool \<Rightarrow> Fold list \<Rightarrow> nat \<Rightarrow> error + step" where
  "apply_fold orc func op_name d can_fold_forwards factor extent ax body dims_folded counter =
     (case FoldStorageOfFunction orc (func_name func) d factor (fst body) of
        Inl e \<Rightarrow> Inl e
      | Inr (body', same') \<Rightarrow>
          (let (sema, body'', same'', counter') =
                 (if async func then
                    (let (s, b, c) =
                           async_fold orc func op_name can_fold_forwards factor extent ax
                             body' counter
                     in (Some s, b, False, c))
                  else (None, body', snd body \<and> same', counter));
               dims_folded' =
                 dims_folded @ [\<lparr>fold_dim = d, factor_of = factor, semaphore = sema\<rparr>];
               min_next =
                 substitute orc op_name (Bin Add (loop_var op_name) (IntImm 1)) (box_min ax)
           in if can_prove orc (Bin LT (box_max ax) min_next)
              then Inr (Continuing body'' same'' dims_folded' counter')
              else Inr (Returned body'' same'' dims_folded' counter')))"

definition try_dim ::
  "oracles \<Rightarrow> Function \<Rightarrow> bool \<Rightarrow> string \<Rightarrow> Box \<Rightarrow> Box \<Rightarrow> Box \<Rightarrow> nat
   \<Rightarrow> (Stmt \<times> bool) \<Rightarrow> Fold list \<Rightarrow> nat \<Rightarrow> error + step" where
  "try_dim orc func explicit_only op_name provided required box d body dims_folded counter =
     (if d < length box \<and> d < length provided \<and> d < length required
         \<and> d < length (storage_dims func) then
        (let ax = axis_bounds_at orc provided required box d;
             storage_dim = storage_dims func ! d;
             ef = explicit_factor orc op_name storage_dim (box_min ax) (box_max ax);
             (can_fold, body1) =
               asserted_fold orc func op_name storage_dim ef ax
                 (monotonic_fold orc func explicit_only op_name ax) body
         in if fst can_fold \<or> snd can_fold then
              (let extent = extent_of orc ax in
               case choose_factor orc func op_name storage_dim ef extent body1 of
                 Inl e \<Rightarrow> Inl e
               | Inr (None, body2) \<Rightarrow> Inr (Continuing (fst body2) (snd body2) dims_folded counter)
               | Inr (Some factor, body2) \<Rightarrow>
                   apply_fold orc func op_name d (fst can_fold) factor extent ax
                     body2 dims_folded counter)
            else Inr (Continuing (fst body1) (snd body1) dims_folded counter))
      else Inl UndefinedBehaviour)"

fun fold_dims ::
  "oracles \<Rightarrow> Function \<Rightarrow> bool \<Rightarrow> string \<Rightarrow> Box \<Rightarrow> Box \<Rightarrow> Box \<Rightarrow> nat list
   \<Rightarrow> (Stmt \<times> bool) \<Rightarrow> Fold list \<Rightarrow> nat \<Rightarrow> error + step" where
  "fold_dims orc func explicit_only op_name provided required box [] body dims_folded counter =
     Inr (Continuing (fst body) (snd body) dims_folded counter)"
| "fold_dims orc func explicit_only op_name provided required box (d # ds) body dims_folded counter =
     (case try_dim orc func explicit_only op_name provided required box d body dims_folded counter of
        Inl e \<Rightarrow> Inl e
      | Inr (Returned body' same' dims_folded' counter') \<Rightarrow>
          Inr (Returned body' same' dims_folded' counter')
      | Inr (Continuing body' same' dims_folded' counter') \<Rightarrow>
          fold_dims orc func explicit_only op_name provided required box ds
            (body', same') dims_folded' counter')"

text \<open>
  The planner calls itself on the body it has rewritten (line 316), which is larger than
  the body it was given but has the same loops; the number of loops, then the size, is
  the measure of its termination.
\<close>

fun num_fors :: "Stmt \<Rightarrow> nat" where
  "num_fors (LetStmt n v b) = num_fors b"
| "num_fors (AssertStmt c m) = 0"
| "num_fors (ProducerConsumer n p b) = num_fors b"
| "num_fors (For n mn ext ft api b) = Suc (num_fors b)"
| "num_fors (Acquire sem cnt b) = num_fors b"
| "num_fors (Provide n vs args) = 0"
| "num_fors (Realize n ts bounds c b) = num_fors b"
| "num_fors (Block a b) = num_fors a + num_fors b"
| "num_fors (IfThenElse c t el) = num_fors t + (case el of None \<Rightarrow> 0 | Some s \<Rightarrow> num_fors s)"
| "num_fors (Evaluate v) = 0"

definition step_body :: "step \<Rightarrow> Stmt" where
  "step_body r = (case r of Returned b s fs c \<Rightarrow> b | Continuing b s fs c \<Rightarrow> b)"

definition step_same :: "step \<Rightarrow> bool" where
  "step_same r = (case r of Returned b s fs c \<Rightarrow> s | Continuing b s fs c \<Rightarrow> s)"

definition step_folds :: "step \<Rightarrow> Fold list" where
  "step_folds r = (case r of Returned b s fs c \<Rightarrow> fs | Continuing b s fs c \<Rightarrow> fs)"

definition step_counter :: "step \<Rightarrow> nat" where
  "step_counter r = (case r of Returned b s fs c \<Rightarrow> c | Continuing b s fs c \<Rightarrow> c)"

lemma lift1_Inr: "lift1 f ma = Inr (r, s) \<longleftrightarrow> (\<exists>a. ma = Inr (a, s) \<and> r = f a)"
  by (auto simp: lift1_def split: sum.splits)

lemma lift2_Inr:
  "lift2 f ma mb = Inr (r, s) \<longleftrightarrow>
     (\<exists>a sa b sb. ma = Inr (a, sa) \<and> mb = Inr (b, sb) \<and> r = f a b \<and> s = (sa \<and> sb))"
  by (auto simp: lift2_def split: sum.splits)

lemma lift3_Inr:
  "lift3 f ma mb mc = Inr (r, s) \<longleftrightarrow>
     (\<exists>a sa b sb c sc. ma = Inr (a, sa) \<and> mb = Inr (b, sb) \<and> mc = Inr (c, sc)
        \<and> r = f a b c \<and> s = (sa \<and> sb \<and> sc))"
  by (auto simp: lift3_def split: sum.splits)

lemma FoldStorageOfFunction_num_fors:
  "FoldStorageOfFunction orc func d factor s = Inr (s', same) \<Longrightarrow> num_fors s' = num_fors s"
proof (induction s arbitrary: s' same)
  case (IfThenElse c t el)
  then show ?case
    by (cases el) (auto simp: lift1_Inr lift3_Inr unchanged_def)
qed (auto simp: lift1_Inr lift2_Inr lift3_Inr split: sum.splits if_splits)

lemma asserted_fold_num_fors:
  "num_fors (fst (snd (asserted_fold orc func op_name sd ef ax cf body))) = num_fors (fst body)"
  by (simp add: asserted_fold_def Let_def)

lemma choose_factor_num_fors:
  "choose_factor orc func op_name sd ef extent body = Inr (f, body') \<Longrightarrow>
   num_fors (fst body') = num_fors (fst body)"
  by (auto simp: choose_factor_def Let_def split: option.splits sum.splits)

lemma async_fold_num_fors:
  "num_fors (fst (snd (async_fold orc func op_name cff factor extent ax body counter))) = num_fors body"
  by (simp add: async_fold_def Let_def split: prod.splits)

lemma apply_fold_num_fors:
  assumes "apply_fold orc func op_name d cff factor extent ax body fs c = Inr r"
  shows "num_fors (step_body r) = num_fors (fst body)"
proof -
  from assms obtain body' same' where
    f: "FoldStorageOfFunction orc (func_name func) d factor (fst body) = Inr (body', same')"
    by (auto simp: apply_fold_def split: sum.splits)
  have n: "num_fors body' = num_fors (fst body)"
    using f by (rule FoldStorageOfFunction_num_fors)
  show ?thesis
  proof (cases "async func")
    case True
    with assms f n async_fold_num_fors [of orc func op_name cff factor extent ax body' c]
    show ?thesis
      by (auto simp: apply_fold_def step_body_def Let_def split: prod.splits if_splits)
  next
    case False
    with assms f n show ?thesis
      by (auto simp: apply_fold_def step_body_def Let_def split: if_splits)
  qed
qed

lemma try_dim_num_fors:
  assumes "try_dim orc func eo op_name provided required box d body fs c = Inr r"
  shows "num_fors (step_body r) = num_fors (fst body)"
proof -
  define ax where "ax = axis_bounds_at orc provided required box d"
  define sd where "sd = storage_dims func ! d"
  define ef where "ef = explicit_factor orc op_name sd (box_min ax) (box_max ax)"
  define af where "af = asserted_fold orc func op_name sd ef ax (monotonic_fold orc func eo op_name ax) body"
  define extent where "extent = extent_of orc ax"
  have a: "num_fors (fst (snd af)) = num_fors (fst body)"
    unfolding af_def by (rule asserted_fold_num_fors)
  show ?thesis
  proof (cases "fst (fst af) \<or> snd (fst af)")
    case False
    with assms a show ?thesis
      by (auto simp add: try_dim_def Let_def ax_def [symmetric] sd_def [symmetric] ef_def [symmetric]
          af_def [symmetric] step_body_def split_beta split: if_splits)
  next
    case True
    show ?thesis
    proof (cases "choose_factor orc func op_name sd ef extent (snd af)")
      case (Inl e)
      with assms True show ?thesis
        by (simp add: try_dim_def Let_def ax_def [symmetric] sd_def [symmetric] ef_def [symmetric]
            af_def [symmetric] extent_def [symmetric] split_beta split: if_splits)
    next
      case (Inr p)
      obtain fo body2 where p: "p = (fo, body2)" by (cases p)
      have c: "num_fors (fst body2) = num_fors (fst body)"
        using choose_factor_num_fors [OF Inr [unfolded p]] a by simp
      show ?thesis
      proof (cases fo)
        case None
        with assms True Inr p c show ?thesis
          by (auto simp add: try_dim_def Let_def ax_def [symmetric] sd_def [symmetric] ef_def [symmetric]
              af_def [symmetric] extent_def [symmetric] step_body_def split_beta split: if_splits)
      next
        case (Some factor)
        with assms True Inr p have
          "apply_fold orc func op_name d (fst (fst af)) factor extent ax body2 fs c = Inr r"
          by (simp add: try_dim_def Let_def ax_def [symmetric] sd_def [symmetric] ef_def [symmetric]
              af_def [symmetric] extent_def [symmetric] split_beta split: if_splits)
        from apply_fold_num_fors [OF this] c show ?thesis by simp
      qed
    qed
  qed
qed

lemma fold_dims_num_fors:
  "fold_dims orc func eo op_name provided required box ds body fs c = Inr r
   \<Longrightarrow> num_fors (step_body r) = num_fors (fst body)"
proof (induction ds arbitrary: body fs c)
  case Nil
  then show ?case by (auto simp: step_body_def)
next
  case (Cons d ds)
  show ?case
  proof (cases "try_dim orc func eo op_name provided required box d body fs c")
    case (Inl e)
    with Cons.prems show ?thesis by simp
  next
    case (Inr q)
    from try_dim_num_fors [OF Inr] have q: "num_fors (step_body q) = num_fors (fst body)" .
    show ?thesis
    proof (cases q)
      case (Returned b s fs' c')
      with Cons.prems Inr q show ?thesis by auto
    next
      case (Continuing b s fs' c')
      with Cons.prems Inr have
        "fold_dims orc func eo op_name provided required box ds (b, s) fs' c' = Inr r" by simp
      from Cons.IH [OF this] q Continuing show ?thesis by (simp add: step_body_def)
    qed
  qed
qed

text \<open>
  Lines 97-337. \<^verbatim>\<open>visit(ProducerConsumer)\<close> stops at the production or consumption of
  the buffer itself; \<^verbatim>\<open>visit(For)\<close> is the planner proper; every other statement takes
  the base class's traversal, which does not look into expressions for statements. The
  result is the tree, the flag \<^verbatim>\<open>same_as\<close>, the member \<^verbatim>\<open>dims_folded\<close> and the name
  counter.
\<close>

function AttemptStorageFoldingOfFunction ::
  "oracles \<Rightarrow> Function \<Rightarrow> bool \<Rightarrow> Stmt \<Rightarrow> Fold list \<Rightarrow> nat
   \<Rightarrow> error + (Stmt \<times> bool \<times> Fold list \<times> nat)" where
  "AttemptStorageFoldingOfFunction orc func explicit_only (ProducerConsumer n p b) dims_folded counter =
     (if n = func_name func then Inr (ProducerConsumer n p b, True, dims_folded, counter)
      else
        (case AttemptStorageFoldingOfFunction orc func explicit_only b dims_folded counter of
           Inl e \<Rightarrow> Inl e
         | Inr (b', same, dims_folded', counter') \<Rightarrow>
             Inr (ProducerConsumer n p b', same, dims_folded', counter')))"
| "AttemptStorageFoldingOfFunction orc func explicit_only (For n lo ext ft api b) dims_folded counter =
     (if ft \<noteq> Serial \<and> ft \<noteq> Unrolled then Inr (For n lo ext ft api b, True, dims_folded, counter)
      else
        (let provided = box_provided orc b (func_name func);
             required = box_required orc b (func_name func);
             box = box_union orc provided required
         in case fold_dims orc func explicit_only n provided required box
                   (rev [0..<length box]) (b, True) dims_folded counter of
              Inl e \<Rightarrow> Inl e
            | Inr (Returned body same dims_folded' counter') \<Rightarrow>
                Inr (if \<not> same then For n lo ext ft api body else For n lo ext ft api b,
                     same, dims_folded', counter')
            | Inr (Continuing body same dims_folded' counter') \<Rightarrow>
                if box_contains orc provided required then
                  (case AttemptStorageFoldingOfFunction orc func explicit_only body
                          dims_folded' counter' of
                     Inl e \<Rightarrow> Inl e
                   | Inr (body', same', dims_folded'', counter'') \<Rightarrow>
                       Inr (if same \<and> same' then For n lo ext ft api b
                            else For n lo ext ft api body',
                            same \<and> same', dims_folded'', counter''))
                else
                  Inr (if same then For n lo ext ft api b else For n lo ext ft api body,
                       same, dims_folded', counter')))"
| "AttemptStorageFoldingOfFunction orc func explicit_only (LetStmt n v b) dims_folded counter =
     (case AttemptStorageFoldingOfFunction orc func explicit_only b dims_folded counter of
        Inl e \<Rightarrow> Inl e
      | Inr (b', same, dims_folded', counter') \<Rightarrow> Inr (LetStmt n v b', same, dims_folded', counter'))"
| "AttemptStorageFoldingOfFunction orc func explicit_only (Acquire sem cnt b) dims_folded counter =
     (case AttemptStorageFoldingOfFunction orc func explicit_only b dims_folded counter of
        Inl e \<Rightarrow> Inl e
      | Inr (b', same, dims_folded', counter') \<Rightarrow>
          Inr (Acquire sem cnt b', same, dims_folded', counter'))"
| "AttemptStorageFoldingOfFunction orc func explicit_only (Realize n ts bounds c b) dims_folded counter =
     (case AttemptStorageFoldingOfFunction orc func explicit_only b dims_folded counter of
        Inl e \<Rightarrow> Inl e
      | Inr (b', same, dims_folded', counter') \<Rightarrow>
          Inr (Realize n ts bounds c b', same, dims_folded', counter'))"
| "AttemptStorageFoldingOfFunction orc func explicit_only (Block a b) dims_folded counter =
     (case AttemptStorageFoldingOfFunction orc func explicit_only a dims_folded counter of
        Inl e \<Rightarrow> Inl e
      | Inr (a', same_a, dims_folded', counter') \<Rightarrow>
          (case AttemptStorageFoldingOfFunction orc func explicit_only b dims_folded' counter' of
             Inl e \<Rightarrow> Inl e
           | Inr (b', same_b, dims_folded'', counter'') \<Rightarrow>
               Inr (Block a' b', same_a \<and> same_b, dims_folded'', counter'')))"
| "AttemptStorageFoldingOfFunction orc func explicit_only (IfThenElse c t el) dims_folded counter =
     (case AttemptStorageFoldingOfFunction orc func explicit_only t dims_folded counter of
        Inl e \<Rightarrow> Inl e
      | Inr (t', same_t, dims_folded', counter') \<Rightarrow>
          (case el of
             None \<Rightarrow> Inr (IfThenElse c t' None, same_t, dims_folded', counter')
           | Some s \<Rightarrow>
               (case AttemptStorageFoldingOfFunction orc func explicit_only s dims_folded' counter' of
                  Inl e \<Rightarrow> Inl e
                | Inr (s', same_s, dims_folded'', counter'') \<Rightarrow>
                    Inr (IfThenElse c t' (Some s'), same_t \<and> same_s, dims_folded'', counter''))))"
| "AttemptStorageFoldingOfFunction orc func explicit_only (AssertStmt c m) dims_folded counter =
     Inr (AssertStmt c m, True, dims_folded, counter)"
| "AttemptStorageFoldingOfFunction orc func explicit_only (Provide n vs args) dims_folded counter =
     Inr (Provide n vs args, True, dims_folded, counter)"
| "AttemptStorageFoldingOfFunction orc func explicit_only (Evaluate v) dims_folded counter =
     Inr (Evaluate v, True, dims_folded, counter)"
  by pat_completeness auto
termination
  by (relation "measures [\<lambda>(orc, func, eo, s, fs, c). num_fors s, \<lambda>(orc, func, eo, s, fs, c). size s]")
    (auto dest!: fold_dims_num_fors simp: step_body_def)

section \<open>The producer-count probe and the special-buffer detector\<close>

text \<open>
  Lines 28-51: a production of the buffer counts one and is not entered; everything
  else is traversed. Lines 342-358: the buffer is special when a handle variable named
  \<^verbatim>\<open>name.buffer\<close> occurs anywhere in the statement.
\<close>

fun count_producers :: "Stmt \<Rightarrow> string \<Rightarrow> nat" where
  "count_producers (ProducerConsumer n is_producer b) name =
     (if is_producer \<and> n = name then 1 else count_producers b name)"
| "count_producers (LetStmt n v b) name = count_producers b name"
| "count_producers (AssertStmt c m) name = 0"
| "count_producers (For n lo ext ft api b) name = count_producers b name"
| "count_producers (Acquire sem cnt b) name = count_producers b name"
| "count_producers (Provide n vs args) name = 0"
| "count_producers (Realize n ts bounds c b) name = count_producers b name"
| "count_producers (Block a b) name = count_producers a name + count_producers b name"
| "count_producers (IfThenElse c t el) name =
     count_producers t name + (case el of None \<Rightarrow> 0 | Some s \<Rightarrow> count_producers s name)"
| "count_producers (Evaluate v) name = 0"

fun IsBufferSpecial_expr :: "string \<Rightarrow> Expr \<Rightarrow> bool" where
  "IsBufferSpecial_expr func (Variable t n) = (is_handle t \<and> n = func @ ''.buffer'')"
| "IsBufferSpecial_expr func (IntImm v) = False"
| "IsBufferSpecial_expr func (StringImm s) = False"
| "IsBufferSpecial_expr func (Bin bop a b) =
     (IsBufferSpecial_expr func a \<or> IsBufferSpecial_expr func b)"
| "IsBufferSpecial_expr func (Not_e a) = IsBufferSpecial_expr func a"
| "IsBufferSpecial_expr func (Select c a b) =
     (IsBufferSpecial_expr func c \<or> IsBufferSpecial_expr func a \<or> IsBufferSpecial_expr func b)"
| "IsBufferSpecial_expr func (Call t n args ct) = (\<exists>a \<in> set args. IsBufferSpecial_expr func a)"
| "IsBufferSpecial_expr func (Let_e n v b) =
     (IsBufferSpecial_expr func v \<or> IsBufferSpecial_expr func b)"

fun IsBufferSpecial :: "string \<Rightarrow> Stmt \<Rightarrow> bool" where
  "IsBufferSpecial func (LetStmt n v b) = (IsBufferSpecial_expr func v \<or> IsBufferSpecial func b)"
| "IsBufferSpecial func (AssertStmt c m) =
     (IsBufferSpecial_expr func c \<or> IsBufferSpecial_expr func m)"
| "IsBufferSpecial func (ProducerConsumer n p b) = IsBufferSpecial func b"
| "IsBufferSpecial func (For n lo ext ft api b) =
     (IsBufferSpecial_expr func lo \<or> IsBufferSpecial_expr func ext \<or> IsBufferSpecial func b)"
| "IsBufferSpecial func (Acquire sem cnt b) =
     (IsBufferSpecial_expr func sem \<or> IsBufferSpecial_expr func cnt \<or> IsBufferSpecial func b)"
| "IsBufferSpecial func (Provide n vs args) =
     ((\<exists>a \<in> set vs. IsBufferSpecial_expr func a) \<or> (\<exists>a \<in> set args. IsBufferSpecial_expr func a))"
| "IsBufferSpecial func (Realize n ts bounds c b) =
     ((\<exists>r \<in> set bounds. IsBufferSpecial_expr func (fst r) \<or> IsBufferSpecial_expr func (snd r))
      \<or> IsBufferSpecial func b \<or> IsBufferSpecial_expr func c)"
| "IsBufferSpecial func (Block a b) = (IsBufferSpecial func a \<or> IsBufferSpecial func b)"
| "IsBufferSpecial func (IfThenElse c t el) =
     (IsBufferSpecial_expr func c \<or> IsBufferSpecial func t
      \<or> (case el of None \<Rightarrow> False | Some s \<Rightarrow> IsBufferSpecial func s))"
| "IsBufferSpecial func (Evaluate v) = IsBufferSpecial_expr func v"

section \<open>The scope orchestrator: \<^verbatim>\<open>StorageFolding\<close>\<close>

text \<open>
  Modelled from the spec: line 375 takes a default-constructed \<^verbatim>\<open>Function\<close> when the
  environment has no entry for the buffer. The constructor is outside the excerpt; the
  model gives it no storage dimension and a synchronous schedule.
\<close>

definition Function_default :: Function where
  "Function_default = \<lparr>func_name = [], storage_dims = [], async = False\<rparr>"

text \<open>
  Lines 405-424: every recorded fold replaces the range of its dimension by
  \<open>(0, factor)\<close>, with \<^verbatim>\<open>internal_assert\<close> on the dimension, and every semaphore is bound
  around the allocation by a call to \<^verbatim>\<open>halide_make_semaphore\<close>.
\<close>

fun fold_bounds :: "(Expr \<times> Expr) list \<Rightarrow> Fold list \<Rightarrow> error + (Expr \<times> Expr) list" where
  "fold_bounds bounds [] = Inr bounds"
| "fold_bounds bounds (f # fs) =
     (if fold_dim f < length bounds
      then fold_bounds (bounds[fold_dim f := (IntImm 0, factor_of f)]) fs
      else Inl InternalError)"

fun make_semaphores :: "Fold list \<Rightarrow> Stmt \<Rightarrow> Stmt" where
  "make_semaphores [] stmt = stmt"
| "make_semaphores (f # fs) stmt =
     (case semaphore f of
        Some sema \<Rightarrow>
          make_semaphores fs
            (LetStmt (sema_name sema)
               (Call Handle_t ''halide_make_semaphore'' [sema_init sema] Call_Extern) stmt)
      | None \<Rightarrow> make_semaphores fs stmt)"

text \<open>
  Lines 379-381, the message of the \<^verbatim>\<open>user_assert\<close>, line feed included.
\<close>

definition cannot_be_folded :: "StorageDim \<Rightarrow> string \<Rightarrow> error" where
  "cannot_be_folded i name =
     UserError (''Dimension '' @ var i @ '' of '' @ name
                @ '' cannot be folded because it is accessed by extern or device stages.''
                @ [CHR 0x0A])"

text \<open>
  Lines 366-427, \<^verbatim>\<open>visit(Realize)\<close>: the body first, then the detector on the original
  node; a special buffer must not declare a factor and is left alone; otherwise the
  planner runs, in \<open>explicit_only\<close> mode unless the body has exactly one production of the
  buffer. Every other statement takes the base class's traversal.
\<close>

fun StorageFolding ::
  "oracles \<Rightarrow> (string \<rightharpoonup> Function) \<Rightarrow> Stmt \<Rightarrow> nat \<Rightarrow> error + (Stmt \<times> bool \<times> nat)" where
  "StorageFolding orc env (Realize name types bounds condition body) counter =
     (case StorageFolding orc env body counter of
        Inl e \<Rightarrow> Inl e
      | Inr (body1, same1, counter1) \<Rightarrow>
          (let special = IsBufferSpecial name (Realize name types bounds condition body);
               func = (case env name of Some f \<Rightarrow> f | None \<Rightarrow> Function_default)
           in if special then
                (case find (\<lambda>i. fold_factor i \<noteq> None) (storage_dims func) of
                   Some i \<Rightarrow> Inl (cannot_be_folded i name)
                 | None \<Rightarrow>
                     Inr (if same1 then Realize name types bounds condition body
                          else Realize name types bounds condition body1,
                          same1, counter1))
              else
                (let explicit_only = (count_producers body1 name \<noteq> 1) in
                 case AttemptStorageFoldingOfFunction orc func explicit_only body1 [] counter1 of
                   Inl e \<Rightarrow> Inl e
                 | Inr (body2, same2, dims_folded, counter2) \<Rightarrow>
                     if same1 \<and> same2
                     then Inr (Realize name types bounds condition body, True, counter2)
                     else if dims_folded = []
                     then Inr (Realize name types bounds condition body2, False, counter2)
                     else
                       (case fold_bounds bounds dims_folded of
                          Inl e \<Rightarrow> Inl e
                        | Inr bounds' \<Rightarrow>
                            Inr (make_semaphores dims_folded
                                   (Realize name types bounds' condition body2),
                                 False, counter2)))))"
| "StorageFolding orc env (LetStmt n v b) counter =
     (case StorageFolding orc env b counter of
        Inl e \<Rightarrow> Inl e
      | Inr (b', same, counter') \<Rightarrow> Inr (LetStmt n v b', same, counter'))"
| "StorageFolding orc env (ProducerConsumer n p b) counter =
     (case StorageFolding orc env b counter of
        Inl e \<Rightarrow> Inl e
      | Inr (b', same, counter') \<Rightarrow> Inr (ProducerConsumer n p b', same, counter'))"
| "StorageFolding orc env (For n lo ext ft api b) counter =
     (case StorageFolding orc env b counter of
        Inl e \<Rightarrow> Inl e
      | Inr (b', same, counter') \<Rightarrow> Inr (For n lo ext ft api b', same, counter'))"
| "StorageFolding orc env (Acquire sem cnt b) counter =
     (case StorageFolding orc env b counter of
        Inl e \<Rightarrow> Inl e
      | Inr (b', same, counter') \<Rightarrow> Inr (Acquire sem cnt b', same, counter'))"
| "StorageFolding orc env (Block a b) counter =
     (case StorageFolding orc env a counter of
        Inl e \<Rightarrow> Inl e
      | Inr (a', same_a, counter') \<Rightarrow>
          (case StorageFolding orc env b counter' of
             Inl e \<Rightarrow> Inl e
           | Inr (b', same_b, counter'') \<Rightarrow> Inr (Block a' b', same_a \<and> same_b, counter'')))"
| "StorageFolding orc env (IfThenElse c t el) counter =
     (case StorageFolding orc env t counter of
        Inl e \<Rightarrow> Inl e
      | Inr (t', same_t, counter') \<Rightarrow>
          (case el of
             None \<Rightarrow> Inr (IfThenElse c t' None, same_t, counter')
           | Some s \<Rightarrow>
               (case StorageFolding orc env s counter' of
                  Inl e \<Rightarrow> Inl e
                | Inr (s', same_s, counter'') \<Rightarrow>
                    Inr (IfThenElse c t' (Some s'), same_t \<and> same_s, counter''))))"
| "StorageFolding orc env (AssertStmt c m) counter = Inr (AssertStmt c m, True, counter)"
| "StorageFolding orc env (Provide n vs args) counter = Inr (Provide n vs args, True, counter)"
| "StorageFolding orc env (Evaluate v) counter = Inr (Evaluate v, True, counter)"

section \<open>The constant-propagation prepass: \<^verbatim>\<open>SubstituteInConstants\<close>\<close>

text \<open>
  Lines 435-465. The scope maps a variable to the constant bound to it, innermost
  binding first. A binding to a constant enters the scope for the body (push, then pop);
  a binding to anything else leaves the scope as it is.
\<close>

type_synonym Scope = "(string \<times> Expr) list"

fun SubstituteInConstants_expr :: "Scope \<Rightarrow> Expr \<Rightarrow> Expr" where
  "SubstituteInConstants_expr scope (Variable t n) =
     (case map_of scope n of Some v \<Rightarrow> v | None \<Rightarrow> Variable t n)"
| "SubstituteInConstants_expr scope (IntImm v) = IntImm v"
| "SubstituteInConstants_expr scope (StringImm s) = StringImm s"
| "SubstituteInConstants_expr scope (Bin bop a b) =
     Bin bop (SubstituteInConstants_expr scope a) (SubstituteInConstants_expr scope b)"
| "SubstituteInConstants_expr scope (Not_e a) = Not_e (SubstituteInConstants_expr scope a)"
| "SubstituteInConstants_expr scope (Select c a b) =
     Select (SubstituteInConstants_expr scope c) (SubstituteInConstants_expr scope a)
       (SubstituteInConstants_expr scope b)"
| "SubstituteInConstants_expr scope (Call t n args ct) =
     Call t n (map (SubstituteInConstants_expr scope) args) ct"
| "SubstituteInConstants_expr scope (Let_e n v b) =
     Let_e n (SubstituteInConstants_expr scope v) (SubstituteInConstants_expr scope b)"

fun SubstituteInConstants :: "oracles \<Rightarrow> Scope \<Rightarrow> Stmt \<Rightarrow> Stmt" where
  "SubstituteInConstants orc scope (LetStmt n v b) =
     (let value = simplify orc (SubstituteInConstants_expr scope v) in
      if is_const orc value
      then LetStmt n value (SubstituteInConstants orc ((n, value) # scope) b)
      else LetStmt n value (SubstituteInConstants orc scope b))"
| "SubstituteInConstants orc scope (AssertStmt c m) =
     AssertStmt (SubstituteInConstants_expr scope c) (SubstituteInConstants_expr scope m)"
| "SubstituteInConstants orc scope (ProducerConsumer n p b) =
     ProducerConsumer n p (SubstituteInConstants orc scope b)"
| "SubstituteInConstants orc scope (For n lo ext ft api b) =
     For n (SubstituteInConstants_expr scope lo) (SubstituteInConstants_expr scope ext) ft api
       (SubstituteInConstants orc scope b)"
| "SubstituteInConstants orc scope (Acquire sem cnt b) =
     Acquire (SubstituteInConstants_expr scope sem) (SubstituteInConstants_expr scope cnt)
       (SubstituteInConstants orc scope b)"
| "SubstituteInConstants orc scope (Provide n vs args) =
     Provide n (map (SubstituteInConstants_expr scope) vs)
       (map (SubstituteInConstants_expr scope) args)"
| "SubstituteInConstants orc scope (Realize n ts bounds c b) =
     Realize n ts
       (map (\<lambda>r. (SubstituteInConstants_expr scope (fst r), SubstituteInConstants_expr scope (snd r)))
          bounds)
       (SubstituteInConstants_expr scope c) (SubstituteInConstants orc scope b)"
| "SubstituteInConstants orc scope (Block a b) =
     Block (SubstituteInConstants orc scope a) (SubstituteInConstants orc scope b)"
| "SubstituteInConstants orc scope (IfThenElse c t el) =
     IfThenElse (SubstituteInConstants_expr scope c) (SubstituteInConstants orc scope t)
       (case el of None \<Rightarrow> None | Some s \<Rightarrow> Some (SubstituteInConstants orc scope s))"
| "SubstituteInConstants orc scope (Evaluate v) = Evaluate (SubstituteInConstants_expr scope v)"


text \<open>
  \<open>reads func e\<close>: a call of type \<^verbatim>\<open>Call::Halide\<close> to \<open>func\<close> occurs in \<open>e\<close>;
  \<open>accesses func s\<close>: such a call or a write to \<open>func\<close> occurs in \<open>s\<close>. The \<open>in_range\<close>
  variants say that each of them has a position \<open>d\<close>. \<open>folded\<close> is the rewriting in the
  specification's words: position \<open>d\<close> of every access becomes 0 for the factor 1 and the
  index modulo the factor otherwise; everything else is mapped.
\<close>

fun reads :: "string \<Rightarrow> Expr \<Rightarrow> bool" where
  "reads func (IntImm v) = False"
| "reads func (StringImm s) = False"
| "reads func (Variable t n) = False"
| "reads func (Bin bop a b) = (reads func a \<or> reads func b)"
| "reads func (Not_e a) = reads func a"
| "reads func (Select c a b) = (reads func c \<or> reads func a \<or> reads func b)"
| "reads func (Let_e n v b) = (reads func v \<or> reads func b)"
| "reads func (Call t name args ct) =
     ((name = func \<and> ct = Call_Halide) \<or> (\<exists>a \<in> set args. reads func a))"

fun accesses :: "string \<Rightarrow> Stmt \<Rightarrow> bool" where
  "accesses func (LetStmt n v b) = (reads func v \<or> accesses func b)"
| "accesses func (AssertStmt c m) = (reads func c \<or> reads func m)"
| "accesses func (ProducerConsumer n p b) = accesses func b"
| "accesses func (For n mn ext ft api b) = (reads func mn \<or> reads func ext \<or> accesses func b)"
| "accesses func (Acquire sem cnt b) = (reads func sem \<or> reads func cnt \<or> accesses func b)"
| "accesses func (Provide name values args) =
     (name = func \<or> (\<exists>a \<in> set args. reads func a) \<or> (\<exists>a \<in> set values. reads func a))"
| "accesses func (Realize n ts bounds c b) =
     ((\<exists>r \<in> set bounds. reads func (fst r) \<or> reads func (snd r)) \<or> reads func c \<or> accesses func b)"
| "accesses func (Block a b) = (accesses func a \<or> accesses func b)"
| "accesses func (IfThenElse c t el) =
     (reads func c \<or> accesses func t \<or> (case el of None \<Rightarrow> False | Some s \<Rightarrow> accesses func s))"
| "accesses func (Evaluate v) = reads func v"

fun reads_in_range :: "string \<Rightarrow> nat \<Rightarrow> Expr \<Rightarrow> bool" where
  "reads_in_range func d (IntImm v) = True"
| "reads_in_range func d (StringImm s) = True"
| "reads_in_range func d (Variable t n) = True"
| "reads_in_range func d (Bin bop a b) = (reads_in_range func d a \<and> reads_in_range func d b)"
| "reads_in_range func d (Not_e a) = reads_in_range func d a"
| "reads_in_range func d (Select c a b) =
     (reads_in_range func d c \<and> reads_in_range func d a \<and> reads_in_range func d b)"
| "reads_in_range func d (Let_e n v b) = (reads_in_range func d v \<and> reads_in_range func d b)"
| "reads_in_range func d (Call t name args ct) =
     ((name = func \<and> ct = Call_Halide \<longrightarrow> d < length args)
      \<and> (\<forall>a \<in> set args. reads_in_range func d a))"

fun accesses_in_range :: "string \<Rightarrow> nat \<Rightarrow> Stmt \<Rightarrow> bool" where
  "accesses_in_range func d (LetStmt n v b) = (reads_in_range func d v \<and> accesses_in_range func d b)"
| "accesses_in_range func d (AssertStmt c m) = (reads_in_range func d c \<and> reads_in_range func d m)"
| "accesses_in_range func d (ProducerConsumer n p b) = accesses_in_range func d b"
| "accesses_in_range func d (For n mn ext ft api b) =
     (reads_in_range func d mn \<and> reads_in_range func d ext \<and> accesses_in_range func d b)"
| "accesses_in_range func d (Acquire sem cnt b) =
     (reads_in_range func d sem \<and> reads_in_range func d cnt \<and> accesses_in_range func d b)"
| "accesses_in_range func d (Provide name values args) =
     ((name = func \<longrightarrow> d < length args)
      \<and> (\<forall>a \<in> set args. reads_in_range func d a) \<and> (\<forall>a \<in> set values. reads_in_range func d a))"
| "accesses_in_range func d (Realize n ts bounds c b) =
     ((\<forall>r \<in> set bounds. reads_in_range func d (fst r) \<and> reads_in_range func d (snd r))
      \<and> reads_in_range func d c \<and> accesses_in_range func d b)"
| "accesses_in_range func d (Block a b) = (accesses_in_range func d a \<and> accesses_in_range func d b)"
| "accesses_in_range func d (IfThenElse c t el) =
     (reads_in_range func d c \<and> accesses_in_range func d t
      \<and> (case el of None \<Rightarrow> True | Some s \<Rightarrow> accesses_in_range func d s))"
| "accesses_in_range func d (Evaluate v) = reads_in_range func d v"

fun folded_expr :: "oracles \<Rightarrow> string \<Rightarrow> nat \<Rightarrow> Expr \<Rightarrow> Expr \<Rightarrow> Expr" where
  "folded_expr orc func d factor (IntImm v) = IntImm v"
| "folded_expr orc func d factor (StringImm s) = StringImm s"
| "folded_expr orc func d factor (Variable t n) = Variable t n"
| "folded_expr orc func d factor (Bin bop a b) =
     Bin bop (folded_expr orc func d factor a) (folded_expr orc func d factor b)"
| "folded_expr orc func d factor (Not_e a) = Not_e (folded_expr orc func d factor a)"
| "folded_expr orc func d factor (Select c a b) =
     Select (folded_expr orc func d factor c) (folded_expr orc func d factor a)
       (folded_expr orc func d factor b)"
| "folded_expr orc func d factor (Let_e n v b) =
     Let_e n (folded_expr orc func d factor v) (folded_expr orc func d factor b)"
| "folded_expr orc func d factor (Call t name args ct) =
     (let args' = map (folded_expr orc func d factor) args in
      if name = func \<and> ct = Call_Halide
      then Call t name (args'[d := (if is_one orc factor then IntImm 0 else Bin Mod (args' ! d) factor)]) ct
      else Call t name args' ct)"

fun folded :: "oracles \<Rightarrow> string \<Rightarrow> nat \<Rightarrow> Expr \<Rightarrow> Stmt \<Rightarrow> Stmt" where
  "folded orc func d factor (LetStmt n v b) =
     LetStmt n (folded_expr orc func d factor v) (folded orc func d factor b)"
| "folded orc func d factor (AssertStmt c m) =
     AssertStmt (folded_expr orc func d factor c) (folded_expr orc func d factor m)"
| "folded orc func d factor (ProducerConsumer n p b) = ProducerConsumer n p (folded orc func d factor b)"
| "folded orc func d factor (For n mn ext ft api b) =
     For n (folded_expr orc func d factor mn) (folded_expr orc func d factor ext) ft api
       (folded orc func d factor b)"
| "folded orc func d factor (Acquire sem cnt b) =
     Acquire (folded_expr orc func d factor sem) (folded_expr orc func d factor cnt)
       (folded orc func d factor b)"
| "folded orc func d factor (Provide name values args) =
     (let args' = map (folded_expr orc func d factor) args;
          values' = map (folded_expr orc func d factor) values in
      if name = func
      then Provide name values' (args'[d := (if is_one orc factor then IntImm 0 else Bin Mod (args' ! d) factor)])
      else Provide name values' args')"
| "folded orc func d factor (Realize n ts bounds c b) =
     Realize n ts (map (\<lambda>(mn, ext). (folded_expr orc func d factor mn, folded_expr orc func d factor ext)) bounds)
       (folded_expr orc func d factor c) (folded orc func d factor b)"
| "folded orc func d factor (Block a b) = Block (folded orc func d factor a) (folded orc func d factor b)"
| "folded orc func d factor (IfThenElse c t el) =
     IfThenElse (folded_expr orc func d factor c) (folded orc func d factor t)
       (map_option (folded orc func d factor) el)"
| "folded orc func d factor (Evaluate v) = Evaluate (folded_expr orc func d factor v)"

text \<open>
  Concrete collaborators, to run the model on examples: syntactic occurrence and
  substitution, no simplification, and the boxes of the sites that a statement reads and
  writes outside loops and bindings.
\<close>

fun uses_var :: "Expr \<Rightarrow> string \<Rightarrow> bool" where
  "uses_var (Variable t n) v = (n = v)"
| "uses_var (IntImm i) v = False"
| "uses_var (StringImm s) v = False"
| "uses_var (Bin bop a b) v = (uses_var a v \<or> uses_var b v)"
| "uses_var (Not_e a) v = uses_var a v"
| "uses_var (Select c a b) v = (uses_var c v \<or> uses_var a v \<or> uses_var b v)"
| "uses_var (Call t n args ct) v = (\<exists>a \<in> set args. uses_var a v)"
| "uses_var (Let_e n a b) v = (uses_var a v \<or> uses_var b v)"

fun substitute_var :: "string \<Rightarrow> Expr \<Rightarrow> Expr \<Rightarrow> Expr" where
  "substitute_var v r (Variable t n) = (if n = v then r else Variable t n)"
| "substitute_var v r (IntImm i) = IntImm i"
| "substitute_var v r (StringImm s) = StringImm s"
| "substitute_var v r (Bin bop a b) = Bin bop (substitute_var v r a) (substitute_var v r b)"
| "substitute_var v r (Not_e a) = Not_e (substitute_var v r a)"
| "substitute_var v r (Select c a b) =
     Select (substitute_var v r c) (substitute_var v r a) (substitute_var v r b)"
| "substitute_var v r (Call t n args ct) = Call t n (map (substitute_var v r) args) ct"
| "substitute_var v r (Let_e n a b) =
     Let_e n (substitute_var v r a) (if n = v then b else substitute_var v r b)"

definition merge_boxes :: "Box \<Rightarrow> Box \<Rightarrow> Box" where
  "merge_boxes a b =
     (if a = [] then b else if b = [] then a
      else map (\<lambda>(x, y). (Bin Min_op (fst x) (fst y), Bin Max_op (snd x) (snd y))) (zip a b))"

fun reads_box :: "string \<Rightarrow> Expr \<Rightarrow> Box" where
  "reads_box f (Call t n args ct) =
     merge_boxes (if n = f \<and> ct = Call_Halide then map (\<lambda>a. (a, a)) args else [])
       (foldr (\<lambda>a. merge_boxes (reads_box f a)) args [])"
| "reads_box f (Variable t n) = []"
| "reads_box f (IntImm i) = []"
| "reads_box f (StringImm s) = []"
| "reads_box f (Bin bop a b) = merge_boxes (reads_box f a) (reads_box f b)"
| "reads_box f (Not_e a) = reads_box f a"
| "reads_box f (Select c a b) = merge_boxes (reads_box f c) (merge_boxes (reads_box f a) (reads_box f b))"
| "reads_box f (Let_e n a b) = merge_boxes (reads_box f a) (reads_box f b)"

fun required_box :: "Stmt \<Rightarrow> string \<Rightarrow> Box" where
  "required_box (Provide n vs args) f =
     merge_boxes (foldr (\<lambda>a. merge_boxes (reads_box f a)) vs [])
       (foldr (\<lambda>a. merge_boxes (reads_box f a)) args [])"
| "required_box (Evaluate v) f = reads_box f v"
| "required_box (Block a b) f = merge_boxes (required_box a f) (required_box b f)"
| "required_box (ProducerConsumer n p b) f = required_box b f"
| "required_box (AssertStmt c m) f = merge_boxes (reads_box f c) (reads_box f m)"
| "required_box s f = []"

fun provided_box :: "Stmt \<Rightarrow> string \<Rightarrow> Box" where
  "provided_box (Provide n vs args) f = (if n = f then map (\<lambda>a. (a, a)) args else [])"
| "provided_box (Block a b) f = merge_boxes (provided_box a f) (provided_box b f)"
| "provided_box (ProducerConsumer n p b) f = provided_box b f"
| "provided_box s f = []"

definition syntactic_oracles :: oracles where
  "syntactic_oracles =
     \<lparr>simplify = (\<lambda>e. e),
      box_provided = provided_box,
      box_required = required_box,
      box_union = merge_boxes,
      box_contains = (\<lambda>a b. b = []),
      expr_uses_var = uses_var,
      is_monotonic = (\<lambda>e v. Unknown),
      substitute = substitute_var,
      find_constant_bound = (\<lambda>e d s. e),
      as_const_int = (\<lambda>e. case e of IntImm i \<Rightarrow> Some i | _ \<Rightarrow> None),
      is_const = (\<lambda>e. case e of IntImm i \<Rightarrow> True | StringImm s \<Rightarrow> True | _ \<Rightarrow> False),
      is_one = (\<lambda>e. e = IntImm 1),
      can_prove = (\<lambda>e. False)\<rparr>"

text \<open>
  Modelled from the spec: the meaning of the integer fragment of the expressions, for
  the run-time quantities of the semaphore accounting. The evaluator of the compiler
  is not part of the excerpt. An environment gives every variable a value; division
  and remainder are taken for positive divisors only; \<^verbatim>\<open>likely\<close> is the identity.
\<close>

fun eval_bin :: "BinOp \<Rightarrow> int \<Rightarrow> int \<Rightarrow> int option" where
  "eval_bin Add a b = Some (a + b)"
| "eval_bin Sub a b = Some (a - b)"
| "eval_bin Mul a b = Some (a * b)"
| "eval_bin Div a b = (if 0 < b then Some (a div b) else None)"
| "eval_bin Mod a b = (if 0 < b then Some (a mod b) else None)"
| "eval_bin Min_op a b = Some (min a b)"
| "eval_bin Max_op a b = Some (max a b)"
| "eval_bin EQ a b = Some (if a = b then 1 else 0)"
| "eval_bin NE a b = Some (if a \<noteq> b then 1 else 0)"
| "eval_bin LT a b = Some (if a < b then 1 else 0)"
| "eval_bin LE a b = Some (if a \<le> b then 1 else 0)"
| "eval_bin GT a b = Some (if a > b then 1 else 0)"
| "eval_bin GE a b = Some (if a \<ge> b then 1 else 0)"
| "eval_bin And a b = Some (if a \<noteq> 0 \<and> b \<noteq> 0 then 1 else 0)"
| "eval_bin Or a b = Some (if a \<noteq> 0 \<or> b \<noteq> 0 then 1 else 0)"

fun eval :: "(string \<Rightarrow> int) \<Rightarrow> Expr \<Rightarrow> int option" where
  "eval env (IntImm i) = Some i"
| "eval env (StringImm s) = None"
| "eval env (Variable t n) = Some (env n)"
| "eval env (Bin bop a b) =
     (case eval env a of
        None \<Rightarrow> None
      | Some x \<Rightarrow> (case eval env b of None \<Rightarrow> None | Some y \<Rightarrow> eval_bin bop x y))"
| "eval env (Not_e a) =
     (case eval env a of None \<Rightarrow> None | Some x \<Rightarrow> Some (if x = 0 then 1 else 0))"
| "eval env (Select c a b) =
     (case eval env c of None \<Rightarrow> None | Some x \<Rightarrow> if x \<noteq> 0 then eval env a else eval env b)"
| "eval env (Call t n args ct) =
     (case args of
        [a] \<Rightarrow> if n = ''likely'' \<and> ct = Call_PureIntrinsic then eval env a else None
      | _ \<Rightarrow> None)"
| "eval env (Let_e n v b) =
     (case eval env v of None \<Rightarrow> None | Some x \<Rightarrow> eval (env(n := x)) b)"





text \<open>
  Examples: a one-dimensional pipeline that writes \<open>f\<close> at \<open>x + 2\<close> and reads it at \<open>x\<close>
  in a serial loop, its schedules, and the trees the pass returns for them.
\<close>

definition step_with_counter :: "nat \<Rightarrow> step \<Rightarrow> step" where
  "step_with_counter c r =
     (case r of Returned b s fs c' \<Rightarrow> Returned b s fs c | Continuing b s fs c' \<Rightarrow> Continuing b s fs c)"

definition increasing_window :: oracles where
  "increasing_window =
     syntactic_oracles\<lparr>is_monotonic := (\<lambda>e v. Increasing),
                        find_constant_bound := (\<lambda>e d s. IntImm 3)\<rparr>"

definition window_bounds :: axis_bounds where
  "window_bounds =
     \<lparr>box_min = Variable (Int_t 32) ''x'',
      box_max = Bin Add (Variable (Int_t 32) ''x'') (IntImm 2),
      min_provided = Bin Add (Variable (Int_t 32) ''x'') (IntImm 2),
      max_provided = Bin Add (Variable (Int_t 32) ''x'') (IntImm 2),
      min_required = Variable (Int_t 32) ''x'',
      max_required = Bin Add (Variable (Int_t 32) ''x'') (IntImm 2)\<rparr>"



definition serial_schedule :: "string \<rightharpoonup> Function" where
  "serial_schedule =
     [''f'' \<mapsto> \<lparr>func_name = ''f'',
                 storage_dims = [\<lparr>var = ''x'', fold_factor = None, fold_forward = True\<rparr>],
                 async = False\<rparr>]"


definition folded_serial_pipeline :: Stmt where
  "folded_serial_pipeline =
     Realize ''f'' [Int_t 32] [(IntImm 0, IntImm 4)] (IntImm 1)
       (For ''x'' (IntImm 0) (IntImm 8) Serial DeviceAPI_None
         (Block
           (ProducerConsumer ''f'' True
             (Provide ''f'' [IntImm 1]
               [Bin Mod (Bin Add (Variable (Int_t 32) ''x'') (IntImm 2)) (IntImm 4)]))
           (ProducerConsumer ''f'' False
             (Provide ''g''
               [Call (Int_t 32) ''f'' [Bin Mod (Variable (Int_t 32) ''x'') (IntImm 4)] Call_Halide]
               [Variable (Int_t 32) ''x'']))))"

definition extern_body :: Stmt where
  "extern_body =
     For ''x'' (IntImm 0) (IntImm 8) Serial DeviceAPI_None
       (Block
          (ProducerConsumer ''f'' True
             (Evaluate (Call (Int_t 32) ''fill'' [Variable Handle_t ''f.buffer''] Call_Extern)))
          (ProducerConsumer ''f'' False
             (Provide ''g'' [Call (Int_t 32) ''f'' [Variable (Int_t 32) ''x''] Call_Halide]
                [Variable (Int_t 32) ''x''])))"

definition explicit_schedule :: "string \<rightharpoonup> Function" where
  "explicit_schedule =
     [''f'' \<mapsto> \<lparr>func_name = ''f'',
                 storage_dims = [\<lparr>var = ''x'', fold_factor = Some (IntImm 4), fold_forward = True\<rparr>],
                 async = False\<rparr>]"








subsection \<open>Trees compared apart from semaphore names\<close>

text \<open>
  \<open>erase_semaphore_names\<close> blanks the name at the three places where the pass puts the
  name of a semaphore: the name bound to a call of \<^verbatim>\<open>halide_make_semaphore\<close>, the handle
  of an acquire node and the handle given to \<^verbatim>\<open>halide_semaphore_release\<close>. Two trees
  with the same image differ in these names only.
\<close>

fun erase_handle :: "Expr \<Rightarrow> Expr" where
  "erase_handle (Variable t n) = (if is_handle t then Variable t [] else Variable t n)"
| "erase_handle (IntImm v) = IntImm v"
| "erase_handle (StringImm s) = StringImm s"
| "erase_handle (Bin bop a b) = Bin bop a b"
| "erase_handle (Not_e a) = Not_e a"
| "erase_handle (Select c a b) = Select c a b"
| "erase_handle (Call t n args ct) = Call t n args ct"
| "erase_handle (Let_e n v b) = Let_e n v b"




definition erase_fold :: "Fold \<Rightarrow> Fold" where
  "erase_fold f =
     f\<lparr>semaphore :=
         (case semaphore f of
            None \<Rightarrow> None
          | Some s \<Rightarrow> Some \<lparr>sema_name = [], sema_var = erase_handle (sema_var s),
                            sema_init = sema_init s\<rparr>)\<rparr>"


definition returned :: "step \<Rightarrow> bool" where
  "returned r = (case r of Returned b s fs c \<Rightarrow> True | Continuing b s fs c \<Rightarrow> False)"


subsection \<open>A run of the semaphore bracket over the loop's iterations\<close>





definition advance :: "bool \<Rightarrow> (int \<Rightarrow> int) \<Rightarrow> int \<Rightarrow> int \<Rightarrow> int" where
  "advance can_fold_forwards edge i j =
     (if can_fold_forwards then edge j - edge i else edge i - edge j)"






section \<open>Auxiliary facts\<close>

lemma lift_simps:
  "lift1 f (Inr (a, sa)) = Inr (f a, sa)"
  "lift2 g (Inr (a, sa)) (Inr (b, sb)) = Inr (g a b, sa \<and> sb)"
  "lift3 h (Inr (a, sa)) (Inr (b, sb)) (Inr (c, sc)) = Inr (h a b c, sa \<and> sb \<and> sc)"
  by (simp_all add: lift1_def lift2_def lift3_def)

lemma FoldStorage_exprs_map:
  assumes "\<And>a. a \<in> set args \<Longrightarrow>
     FoldStorageOfFunction_expr orc func d factor a = Inr (folded_expr orc func d factor a, \<not> reads func a)"
  shows "FoldStorageOfFunction_exprs orc func d factor args =
     Inr (map (folded_expr orc func d factor) args, \<not> (\<exists>a \<in> set args. reads func a))"
  using assms by (induction args) (simp_all add: unchanged_def lift_simps)

lemma FoldStorage_expr_folded:
  "reads_in_range func d e \<Longrightarrow>
   FoldStorageOfFunction_expr orc func d factor e = Inr (folded_expr orc func d factor e, \<not> reads func e)"
proof (induction e)
  case (Call t name args ct)
  have "FoldStorageOfFunction_exprs orc func d factor args =
     Inr (map (folded_expr orc func d factor) args, \<not> (\<exists>a \<in> set args. reads func a))"
    by (rule FoldStorage_exprs_map) (use Call in simp)
  with Call.prems show ?case by (simp add: fold_arg_def Let_def)
qed (simp_all add: unchanged_def lift_simps)

lemma FoldStorage_region_folded:
  "\<forall>r \<in> set bounds. reads_in_range func d (fst r) \<and> reads_in_range func d (snd r) \<Longrightarrow>
   FoldStorageOfFunction_region orc func d factor bounds =
     Inr (map (\<lambda>(mn, ext). (folded_expr orc func d factor mn, folded_expr orc func d factor ext)) bounds,
          \<not> (\<exists>r \<in> set bounds. reads func (fst r) \<or> reads func (snd r)))"
  by (induction bounds) (auto simp: unchanged_def lift_simps FoldStorage_expr_folded)

lemma FoldStorage_folded:
  "accesses_in_range func d s \<Longrightarrow>
   FoldStorageOfFunction orc func d factor s = Inr (folded orc func d factor s, \<not> accesses func s)"
proof (induction s)
  case (Provide name vals args)
  have a: "FoldStorageOfFunction_exprs orc func d factor args =
     Inr (map (folded_expr orc func d factor) args, \<not> (\<exists>a \<in> set args. reads func a))"
    using Provide.prems by (intro FoldStorage_exprs_map) (simp add: FoldStorage_expr_folded)
  have v: "FoldStorageOfFunction_exprs orc func d factor vals =
     Inr (map (folded_expr orc func d factor) vals, \<not> (\<exists>a \<in> set vals. reads func a))"
    using Provide.prems by (intro FoldStorage_exprs_map) (simp add: FoldStorage_expr_folded)
  from Provide show ?case by (auto simp: a v lift_simps fold_arg_def Let_def)
next
  case (IfThenElse c t el)
  then show ?case by (cases el) (auto simp: unchanged_def lift_simps FoldStorage_expr_folded)
qed (auto simp: unchanged_def lift_simps FoldStorage_expr_folded FoldStorage_region_folded)

lemma folded_expr_id: "\<not> reads func e \<Longrightarrow> folded_expr orc func d factor e = e"
  by (induction e) (auto simp: map_idI)

lemma folded_id: "\<not> accesses func s \<Longrightarrow> folded orc func d factor s = s"
proof (induction s)
  case (IfThenElse c t el)
  then show ?case by (cases el) (auto simp: folded_expr_id)
qed (auto simp: folded_expr_id map_idI intro!: map_idI)

lemma FoldStorageOfFunction_exprs_same:
  assumes "\<And>a a'. a \<in> set args \<Longrightarrow>
     FoldStorageOfFunction_expr orc func d factor a = Inr (a', True) \<Longrightarrow> a' = a"
  shows "FoldStorageOfFunction_exprs orc func d factor args = Inr (args', True) \<Longrightarrow> args' = args"
  using assms by (induction args arbitrary: args') (auto simp: unchanged_def lift2_Inr)

lemma FoldStorageOfFunction_expr_same:
  "FoldStorageOfFunction_expr orc func d factor e = Inr (e', True) \<Longrightarrow> e' = e"
proof (induction e arbitrary: e')
  case (Call t name args ct)
  from Call.prems obtain args' same where
    a: "FoldStorageOfFunction_exprs orc func d factor args = Inr (args', same)"
    by (auto split: sum.splits)
  with Call.prems have "same" and e: "e' = Call t name args' ct"
    by (auto split: if_splits)
  with a have "args' = args"
    by (intro FoldStorageOfFunction_exprs_same [of args orc func d factor]) (auto dest: Call.IH)
  with e show ?case by simp
qed (auto simp: unchanged_def lift1_Inr lift2_Inr lift3_Inr)

lemma FoldStorageOfFunction_region_same:
  "FoldStorageOfFunction_region orc func d factor bounds = Inr (bounds', True) \<Longrightarrow> bounds' = bounds"
  by (induction bounds arbitrary: bounds')
    (auto simp: unchanged_def lift2_Inr dest!: FoldStorageOfFunction_expr_same)

lemma FoldStorageOfFunction_same:
  "FoldStorageOfFunction orc func d factor s = Inr (s', True) \<Longrightarrow> s' = s"
proof (induction s arbitrary: s')
  case (Provide name vals args)
  from Provide.prems obtain args' vals' where
    a: "FoldStorageOfFunction_exprs orc func d factor args = Inr (args', True)" and
    v: "FoldStorageOfFunction_exprs orc func d factor vals = Inr (vals', True)" and
    s: "s' = Provide name vals' args'"
    by (auto simp: lift2_Inr split: sum.splits if_splits)
  have "args' = args"
    using a by (rule FoldStorageOfFunction_exprs_same [rotated]) (rule FoldStorageOfFunction_expr_same)
  moreover have "vals' = vals"
    using v by (rule FoldStorageOfFunction_exprs_same [rotated]) (rule FoldStorageOfFunction_expr_same)
  ultimately show ?case using s by simp
next
  case (IfThenElse c t el)
  then show ?case
    by (cases el)
      (auto simp: unchanged_def lift1_Inr lift3_Inr dest!: FoldStorageOfFunction_expr_same)
qed (auto simp: lift1_Inr lift2_Inr lift3_Inr
      dest!: FoldStorageOfFunction_expr_same FoldStorageOfFunction_region_same)

lemma try_dim_Inr:
  fixes orc func eo op_name provided required box d body
  defines "ax \<equiv> axis_bounds_at orc provided required box d"
  defines "sd \<equiv> storage_dims func ! d"
  defines "ef \<equiv> explicit_factor orc op_name sd (box_min ax) (box_max ax)"
  defines "af \<equiv> asserted_fold orc func op_name sd ef ax (monotonic_fold orc func eo op_name ax) body"
  assumes "try_dim orc func eo op_name provided required box d body fs c = Inr r"
  shows "d < length box \<and> d < length provided \<and> d < length required
         \<and> d < length (storage_dims func) \<and>
     ((\<not> fst (fst af) \<and> \<not> snd (fst af) \<and> r = Continuing (fst (snd af)) (snd (snd af)) fs c)
      \<or> ((fst (fst af) \<or> snd (fst af)) \<and>
          (\<exists>body2. choose_factor orc func op_name sd ef (extent_of orc ax) (snd af) = Inr (None, body2)
             \<and> r = Continuing (fst body2) (snd body2) fs c))
      \<or> ((fst (fst af) \<or> snd (fst af)) \<and>
          (\<exists>factor body2.
             choose_factor orc func op_name sd ef (extent_of orc ax) (snd af) = Inr (Some factor, body2)
             \<and> apply_fold orc func op_name d (fst (fst af)) factor (extent_of orc ax) ax body2 fs c
                 = Inr r)))"
  using assms(5) unfolding ax_def sd_def ef_def af_def
  by (auto simp: try_dim_def Let_def split_beta split: if_splits sum.splits option.splits prod.splits)

lemma apply_fold_Inr:
  assumes "apply_fold orc func op_name d cff factor extent ax body fs c = Inr r"
  shows "\<exists>body' same'.
     FoldStorageOfFunction orc (func_name func) d factor (fst body) = Inr (body', same') \<and>
     (if async func
      then step_body r = fst (snd (async_fold orc func op_name cff factor extent ax body' c))
           \<and> \<not> step_same r
           \<and> step_folds r = fs @ [\<lparr>fold_dim = d, factor_of = factor,
                 semaphore = Some (fst (async_fold orc func op_name cff factor extent ax body' c))\<rparr>]
           \<and> step_counter r = snd (snd (async_fold orc func op_name cff factor extent ax body' c))
      else step_body r = body' \<and> step_same r = (snd body \<and> same')
           \<and> step_folds r = fs @ [\<lparr>fold_dim = d, factor_of = factor, semaphore = None\<rparr>]
           \<and> step_counter r = c)"
  using assms
  by (auto simp: apply_fold_def Let_def split_beta step_body_def step_same_def step_folds_def
      step_counter_def split: sum.splits if_splits)

lemma next_power_of_two_in_range:
  assumes "next_power_of_two e = Inr p" and "e \<le> 1024"
  shows "p = 2 ^ ceillog2 (nat e) \<and> e \<le> p \<and> p \<le> 1024 \<and> static_cast_int p = p
         \<and> (\<forall>j. e \<le> 2 ^ j \<longrightarrow> ceillog2 (nat e) \<le> j)"
proof -
  from assms have pos: "0 < e" and p: "p = 2 ^ ceillog2 (nat e)"
    by (auto simp: next_power_of_two_def push_bit_eq_mult split: if_splits)
  have "nat e \<le> 2 ^ ceillog2 (nat e)" by (rule le_two_power_ceillog2)
  then have "int (nat e) \<le> int (2 ^ ceillog2 (nat e))" by (rule iffD2 [OF of_nat_le_iff])
  with pos p have le: "e \<le> p" by simp
  have "nat e \<le> 2 ^ 10" using assms(2) by simp
  then have "ceillog2 (nat e) \<le> 10" using pos by (simp add: ceillog2_le_iff)
  then have "(2::int) ^ ceillog2 (nat e) \<le> 2 ^ 10" by (rule power_increasing) simp
  with p have ub: "p \<le> 1024" by simp
  have "0 < p" using p by simp
  with ub have sc: "static_cast_int p = p" by (simp add: static_cast_int_def)
  have "\<forall>j. e \<le> 2 ^ j \<longrightarrow> ceillog2 (nat e) \<le> j"
  proof (intro allI impI)
    fix j :: nat assume "e \<le> 2 ^ j"
    then have "nat e \<le> nat (2 ^ j)" by simp
    then have "nat e \<le> 2 ^ j" by (simp add: nat_power_eq)
    with pos show "ceillog2 (nat e) \<le> j" by (simp add: ceillog2_le_iff)
  qed
  with p le ub sc show ?thesis by simp
qed

lemma automatic_factor_Some:
  assumes "automatic_factor orc op_name extent = Inr (Some f)"
  shows "\<exists>e k. as_const_int orc
             (find_constant_bound orc extent Upper [(op_name, (loop_min op_name, loop_max op_name))])
           = Some e
         \<and> f = IntImm (2 ^ k) \<and> e \<le> 2 ^ k \<and> (2::int) ^ k \<le> 1024
         \<and> (\<forall>j. e \<le> 2 ^ j \<longrightarrow> k \<le> j)"
proof -
  from assms obtain e p where
    e: "as_const_int orc
          (find_constant_bound orc extent Upper [(op_name, (loop_min op_name, loop_max op_name))])
        = Some e"
    and le: "e \<le> 1024" and p: "next_power_of_two e = Inr p" and f: "f = IntImm (static_cast_int p)"
    by (auto simp: automatic_factor_def Let_def max_fold_def split: option.splits if_splits sum.splits)
  from next_power_of_two_in_range [OF p le] e f show ?thesis
    by (intro exI [of _ e] exI [of _ "ceillog2 (nat e)"]) auto
qed

lemma automatic_factor_None:
  assumes "\<forall>e. as_const_int orc
             (find_constant_bound orc extent Upper [(op_name, (loop_min op_name, loop_max op_name))])
           = Some e \<longrightarrow> 1024 < e"
  shows "automatic_factor orc op_name extent = Inr None"
  using assms by (auto simp: automatic_factor_def Let_def max_fold_def split: option.splits)


lemma async_fold_bracket:
  assumes "async_fold orc func op_name cff factor extent ax body counter = (sema, body', counter')"
  shows "\<exists>to_acquire.
     body' = Acquire (sema_var sema) to_acquire
               (Block body
                  (Evaluate (Call (Int_t 32) ''halide_semaphore_release''
                     [sema_var sema, snd (semaphore_amounts orc op_name cff ax)] Call_Extern)))"
  using assms by (auto simp: async_fold_def Let_def split_beta)

lemma step_simps [simp]:
  "step_body (Returned b s fs c) = b" "step_body (Continuing b s fs c) = b"
  "step_same (Returned b s fs c) = s" "step_same (Continuing b s fs c) = s"
  "step_folds (Returned b s fs c) = fs" "step_folds (Continuing b s fs c) = fs"
  "step_counter (Returned b s fs c) = c" "step_counter (Continuing b s fs c) = c"
  "step_with_counter c2 (Returned b s fs c) = Returned b s fs c2"
  "step_with_counter c2 (Continuing b s fs c) = Continuing b s fs c2"
  by (simp_all add: step_body_def step_same_def step_folds_def step_counter_def
      step_with_counter_def)

subsection \<open>The flag \<open>same\<close> is sound\<close>

lemma asserted_fold_same:
  "snd (snd (asserted_fold orc func op_name sd ef ax cf body)) \<Longrightarrow>
   snd (asserted_fold orc func op_name sd ef ax cf body) = body"
  by (auto simp: asserted_fold_def Let_def split: if_splits)

lemma choose_factor_same:
  "choose_factor orc func op_name sd ef extent body = Inr (f, body') \<Longrightarrow> snd body' \<Longrightarrow> body' = body"
  by (auto simp: choose_factor_def Let_def split: option.splits sum.splits)

lemma apply_fold_same:
  assumes "apply_fold orc func op_name d cff factor extent ax body fs c = Inr r" and "step_same r"
  shows "step_body r = fst body \<and> snd body"
proof -
  from apply_fold_Inr [OF assms(1)] assms(2) obtain body' same' where
    "FoldStorageOfFunction orc (func_name func) d factor (fst body) = Inr (body', same')"
    "step_body r = body'" "snd body" "same'"
    by (auto split: if_splits)
  then show ?thesis by (auto dest: FoldStorageOfFunction_same)
qed

lemma Attempt_For_Inr:
  fixes orc func b
  defines "provided \<equiv> box_provided orc b (func_name func)"
  defines "required \<equiv> box_required orc b (func_name func)"
  defines "box \<equiv> box_union orc provided required"
  shows "AttemptStorageFoldingOfFunction orc func eo (For n lo ext ft api b) fs c
             = Inr (s', same, fs', c') \<longleftrightarrow>
    (ft \<noteq> Serial \<and> ft \<noteq> Unrolled \<and> s' = For n lo ext ft api b \<and> same \<and> fs' = fs \<and> c' = c)
    \<or> (\<not> (ft \<noteq> Serial \<and> ft \<noteq> Unrolled) \<and>
        (\<exists>body. fold_dims orc func eo n provided required box (rev [0..<length box]) (b, True) fs c
                   = Inr (Returned body same fs' c')
           \<and> s' = (if \<not> same then For n lo ext ft api body else For n lo ext ft api b)))
    \<or> (\<not> (ft \<noteq> Serial \<and> ft \<noteq> Unrolled) \<and> \<not> box_contains orc provided required \<and>
        (\<exists>body. fold_dims orc func eo n provided required box (rev [0..<length box]) (b, True) fs c
                   = Inr (Continuing body same fs' c')
           \<and> s' = (if same then For n lo ext ft api b else For n lo ext ft api body)))
    \<or> (\<not> (ft \<noteq> Serial \<and> ft \<noteq> Unrolled) \<and> box_contains orc provided required \<and>
        (\<exists>body sm fs1 c1 body' sm'.
           fold_dims orc func eo n provided required box (rev [0..<length box]) (b, True) fs c
             = Inr (Continuing body sm fs1 c1)
           \<and> AttemptStorageFoldingOfFunction orc func eo body fs1 c1 = Inr (body', sm', fs', c')
           \<and> same = (sm \<and> sm')
           \<and> s' = (if sm \<and> sm' then For n lo ext ft api b else For n lo ext ft api body')))"
  unfolding provided_def required_def box_def
  by (auto simp: Let_def split: sum.splits step.splits)

lemma Attempt_Block_Inr:
  "AttemptStorageFoldingOfFunction orc func eo (Block a b) fs c = Inr (s', same, fs', c') \<longleftrightarrow>
   (\<exists>a' sa fs1 c1 b' sb.
      AttemptStorageFoldingOfFunction orc func eo a fs c = Inr (a', sa, fs1, c1)
      \<and> AttemptStorageFoldingOfFunction orc func eo b fs1 c1 = Inr (b', sb, fs', c')
      \<and> s' = Block a' b' \<and> same = (sa \<and> sb))"
  by (auto split: sum.splits)

lemma Attempt_IfThenElse_Inr:
  "AttemptStorageFoldingOfFunction orc func eo (IfThenElse cnd t el) fs c = Inr (s', same, fs', c')
   \<longleftrightarrow>
   (\<exists>t' st fs1 c1.
      AttemptStorageFoldingOfFunction orc func eo t fs c = Inr (t', st, fs1, c1)
      \<and> (case el of
            None \<Rightarrow> s' = IfThenElse cnd t' None \<and> same = st \<and> fs' = fs1 \<and> c' = c1
          | Some e \<Rightarrow>
              (\<exists>e' se. AttemptStorageFoldingOfFunction orc func eo e fs1 c1 = Inr (e', se, fs', c')
                 \<and> s' = IfThenElse cnd t' (Some e') \<and> same = (st \<and> se))))"
  by (auto split: sum.splits option.splits)

lemma AttemptStorageFoldingOfFunction_same:
  "AttemptStorageFoldingOfFunction orc func eo s fs c = Inr (s', True, fs', c') \<Longrightarrow> s' = s"
proof (induction orc func eo s fs c arbitrary: s' fs' c'
    rule: AttemptStorageFoldingOfFunction.induct)
  case (2 orc func explicit_only n lo ext ft api b dims_folded counter)
  from "2.prems" [unfolded Attempt_For_Inr] show ?case
    by (auto split: if_splits)
next
  case (6 orc func explicit_only a b dims_folded counter)
  from "6.prems" obtain a' fs1 c1 b' where
    a: "AttemptStorageFoldingOfFunction orc func explicit_only a dims_folded counter
          = Inr (a', True, fs1, c1)"
    and b: "AttemptStorageFoldingOfFunction orc func explicit_only b fs1 c1 = Inr (b', True, fs', c')"
    and s: "s' = Block a' b'"
    unfolding Attempt_Block_Inr by auto
  from "6.IH"(1) [OF a] "6.IH"(2) [OF a refl refl refl b] s show ?case by simp
next
  case (7 orc func explicit_only cnd t el dims_folded counter)
  from "7.prems" obtain t' st fs1 c1 where
    t: "AttemptStorageFoldingOfFunction orc func explicit_only t dims_folded counter
          = Inr (t', st, fs1, c1)"
    and r: "(case el of
            None \<Rightarrow> s' = IfThenElse cnd t' None \<and> True = st \<and> fs' = fs1 \<and> c' = c1
          | Some e \<Rightarrow>
              (\<exists>e' se. AttemptStorageFoldingOfFunction orc func explicit_only e fs1 c1
                          = Inr (e', se, fs', c')
                 \<and> s' = IfThenElse cnd t' (Some e') \<and> True = (st \<and> se)))"
    unfolding Attempt_IfThenElse_Inr by blast
  show ?case
  proof (cases el)
    case None
    with t r "7.IH"(1) show ?thesis by auto
  next
    case (Some e)
    with r obtain e' where
      e: "AttemptStorageFoldingOfFunction orc func explicit_only e fs1 c1 = Inr (e', True, fs', c')"
      and s: "s' = IfThenElse cnd t' (Some e')" and st: "st"
      by auto
    from t st have t1: "AttemptStorageFoldingOfFunction orc func explicit_only t dims_folded counter
          = Inr (t', True, fs1, c1)" by simp
    from "7.IH"(1) [OF t1] "7.IH"(2) [OF t1 refl refl refl Some e] s Some show ?thesis by simp
  qed
qed (auto split: sum.splits if_splits)

lemma StorageFolding_same:
  "StorageFolding orc env s c = Inr (s', True, c') \<Longrightarrow> s' = s"
proof (induction s arbitrary: s' c c')
  case (Realize name types bounds condition body)
  from Realize.prems show ?case
    by (simp add: Let_def split: sum.splits if_splits option.splits prod.splits)
next
  case (IfThenElse cnd t el)
  then show ?case
    by (cases el) (auto split: sum.splits)
qed (auto split: sum.splits)

subsection \<open>The name counter\<close>






lemma ceillog2_3: "ceillog2 3 = 2"
  by (rule ceillog2_eqI) simp_all

lemma next_power_of_two_3: "next_power_of_two 3 = Inr 4"
  by (simp add: next_power_of_two_def ceillog2_3)

lemma find_None_iff_all: "find P xs = None \<longleftrightarrow> (\<forall>x \<in> set xs. \<not> P x)"
  by (induction xs) auto







subsection \<open>The planner in \<open>explicit_only\<close> mode\<close>










subsection \<open>Folds recorded in \<open>explicit_only\<close> mode\<close>





















subsection \<open>Two runs from different states of the name counter\<close>






lemma returned_simps [simp]:
  "returned (Returned b s fs c) = True"
  "returned (Continuing b s fs c) = False"
  by (simp_all add: returned_def)






















lemma erase_fold_simps [simp]:
  "fold_dim (erase_fold f) = fold_dim f"
  "factor_of (erase_fold f) = factor_of f"
  by (simp_all add: erase_fold_def)









subsection \<open>The count of the semaphore along the loop\<close>




lemma advance_refl [simp]: "advance cff e i i = 0"
  by (simp add: advance_def)






section \<open>Claims\<close>

text \<open>
  C1. Take one axis at one loop for which no explicit factor applies
  (\<open>explicit_factor\<close> is undefined) and let \<open>max_extent\<close> be what the constant-bound
  solver returns for the extent over the scope \<open>[loop_min, loop_max]\<close>. Whenever the step
  returns, it either records no fold, or it records exactly one fold whose factor is the
  constant \<open>2 ^ k\<close> with \<open>e \<le> 2 ^ k \<le> 1024\<close>, \<open>e\<close> being the constant \<open>max_extent\<close>, and
  \<open>k\<close> the least such exponent. When \<open>max_extent\<close> is no constant, or a constant above
  1024, no fold is recorded and the body is left as it was. (For a constant \<open>e \<le> 0\<close> the
  source casts a non-finite value to an integer; the step then has no defined result
  and is outside the statement.)
\<close>

theorem automatic_factor_power_of_two:
  assumes "try_dim orc func explicit_only op_name provided required box d body dims_folded counter
             = Inr r"
    and "ax = axis_bounds_at orc provided required box d"
    and "explicit_factor orc op_name (storage_dims func ! d) (box_min ax) (box_max ax) = None"
    and "max_extent = find_constant_bound orc (extent_of orc ax) Upper
                        [(op_name, (loop_min op_name, loop_max op_name))]"
  shows "(step_folds r = dims_folded
          \<or> (\<exists>e k sema. as_const_int orc max_extent = Some e
                \<and> step_folds r = dims_folded
                     @ [\<lparr>fold_dim = d, factor_of = IntImm (2 ^ k), semaphore = sema\<rparr>]
                \<and> e \<le> 2 ^ k \<and> (2::int) ^ k \<le> 1024 \<and> (\<forall>j. e \<le> 2 ^ j \<longrightarrow> k \<le> j)))
         \<and> ((\<forall>e. as_const_int orc max_extent = Some e \<longrightarrow> 1024 < e)
              \<longrightarrow> step_folds r = dims_folded \<and> step_body r = fst body)"
proof -
  define sd where "sd = storage_dims func ! d"
  define af where "af = asserted_fold orc func op_name sd None ax
                          (monotonic_fold orc func explicit_only op_name ax) body"
  have af: "snd af = body"
    by (simp add: af_def asserted_fold_def)
  have cf: "choose_factor orc func op_name sd None (extent_of orc ax) body
            = (case automatic_factor orc op_name (extent_of orc ax) of
                 Inl e \<Rightarrow> Inl e | Inr factor \<Rightarrow> Inr (factor, body))"
    by (simp add: choose_factor_def)
  from try_dim_Inr [OF assms(1)] assms(2,3)
  consider
    (not_foldable) "r = Continuing (fst body) (snd body) dims_folded counter"
    | (no_factor) body2 where
        "choose_factor orc func op_name sd None (extent_of orc ax) body = Inr (None, body2)"
        "r = Continuing (fst body2) (snd body2) dims_folded counter"
    | (fold) factor body2 where
        "choose_factor orc func op_name sd None (extent_of orc ax) body = Inr (Some factor, body2)"
        "apply_fold orc func op_name d (fst (fst af)) factor (extent_of orc ax) ax body2
           dims_folded counter = Inr r"
    unfolding sd_def [symmetric] using af unfolding af_def by auto
  then show ?thesis
  proof cases
    case not_foldable
    then show ?thesis by (simp add: step_folds_def step_body_def)
  next
    case no_factor
    then show ?thesis by (auto simp: cf step_folds_def step_body_def split: sum.splits)
  next
    case fold
    from fold(1) have a: "automatic_factor orc op_name (extent_of orc ax) = Inr (Some factor)"
      by (auto simp: cf split: sum.splits)
    from automatic_factor_Some [OF a] obtain e k where
      e: "as_const_int orc max_extent = Some e" and f: "factor = IntImm (2 ^ k)"
      and b: "e \<le> 2 ^ k" "(2::int) ^ k \<le> 1024" "\<forall>j. e \<le> 2 ^ j \<longrightarrow> k \<le> j"
      unfolding assms(4) by blast
    from apply_fold_Inr [OF fold(2)] obtain sema where
      "step_folds r = dims_folded @ [\<lparr>fold_dim = d, factor_of = factor, semaphore = sema\<rparr>]"
      by (auto split: if_splits)
    with e f b have "\<exists>e k sema. as_const_int orc max_extent = Some e
                \<and> step_folds r = dims_folded
                     @ [\<lparr>fold_dim = d, factor_of = IntImm (2 ^ k), semaphore = sema\<rparr>]
                \<and> e \<le> 2 ^ k \<and> (2::int) ^ k \<le> 1024 \<and> (\<forall>j. e \<le> 2 ^ j \<longrightarrow> k \<le> j)"
      by blast
    moreover have "\<not> (\<forall>e. as_const_int orc max_extent = Some e \<longrightarrow> 1024 < e)"
      using e b by auto
    ultimately show ?thesis by blast
  qed
qed

theorem automatic_factor_power_of_two_witness:
  "try_dim increasing_window
     \<lparr>func_name = ''f'',
      storage_dims = [\<lparr>var = ''x'', fold_factor = None, fold_forward = True\<rparr>],
      async = False\<rparr>
     False ''x''
     [(Bin Add (Variable (Int_t 32) ''x'') (IntImm 2), Bin Add (Variable (Int_t 32) ''x'') (IntImm 2))]
     [(Variable (Int_t 32) ''x'', Bin Add (Variable (Int_t 32) ''x'') (IntImm 2))]
     [(Variable (Int_t 32) ''x'', Bin Add (Variable (Int_t 32) ''x'') (IntImm 2))]
     0
     (Provide ''f'' [IntImm 1] [Bin Add (Variable (Int_t 32) ''x'') (IntImm 2)], True) [] 0
   = Inr (Returned
       (Provide ''f'' [IntImm 1]
          [Bin Mod (Bin Add (Variable (Int_t 32) ''x'') (IntImm 2)) (IntImm 4)])
       False [\<lparr>fold_dim = 0, factor_of = IntImm (2 ^ 2), semaphore = None\<rparr>] 0)
   \<and> explicit_factor increasing_window ''x''
        \<lparr>var = ''x'', fold_factor = None, fold_forward = True\<rparr>
        (Variable (Int_t 32) ''x'') (Bin Add (Variable (Int_t 32) ''x'') (IntImm 2)) = None
   \<and> as_const_int increasing_window
        (find_constant_bound increasing_window
           (extent_of increasing_window window_bounds) Upper
           [(''x'', (loop_min ''x'', loop_max ''x''))]) = Some 3
   \<and> (3::int) \<le> 2 ^ 2 \<and> (2::int) ^ 2 \<le> 1024"
  using automatic_factor_power_of_two [of increasing_window
      "\<lparr>func_name = ''f'',
        storage_dims = [\<lparr>var = ''x'', fold_factor = None, fold_forward = True\<rparr>],
        async = False\<rparr>"
      False "''x''"
      "[(Bin Add (Variable (Int_t 32) ''x'') (IntImm 2), Bin Add (Variable (Int_t 32) ''x'') (IntImm 2))]"
      "[(Variable (Int_t 32) ''x'', Bin Add (Variable (Int_t 32) ''x'') (IntImm 2))]"
      "[(Variable (Int_t 32) ''x'', Bin Add (Variable (Int_t 32) ''x'') (IntImm 2))]"
      0
      "(Provide ''f'' [IntImm 1] [Bin Add (Variable (Int_t 32) ''x'') (IntImm 2)], True)" "[]" 0]
  by (simp add: increasing_window_def syntactic_oracles_def try_dim_def axis_bounds_at_def
      explicit_factor_def monotonic_fold_def asserted_fold_def extent_of_def choose_factor_def
      automatic_factor_def max_fold_def next_power_of_two_3 static_cast_int_def apply_fold_def
      fold_arg_def loop_var_def loop_min_def loop_max_def window_bounds_def lift_simps
      unchanged_def Let_def)




text \<open>
  C3. On a tree each of whose accesses to the buffer has a position \<open>d\<close>, the rewriter
  returns the tree \<open>folded\<close>: every read (a call of type \<^verbatim>\<open>Call::Halide\<close>) and every
  write of the buffer has its index at position \<open>d\<close> replaced by \<open>0\<close> when the factor is
  the constant one and by the index modulo the factor otherwise, the index being
  itself rewritten where it contains reads of the buffer; the other positions and the
  accesses to other buffers are only traversed. The flag it returns says that the
  result is the very tree it was given exactly when the tree has no access to the
  buffer, and then \<open>folded\<close> is the identity.
\<close>

theorem FoldStorageOfFunction_rewrites_accesses:
  assumes "accesses_in_range func d s"
  shows "FoldStorageOfFunction orc func d factor s
           = Inr (folded orc func d factor s, \<not> accesses func s)
         \<and> (\<not> accesses func s \<longrightarrow> folded orc func d factor s = s)"
  using assms by (simp add: FoldStorage_folded folded_id)

theorem FoldStorageOfFunction_rewrites_accesses_witness:
  "accesses_in_range ''f'' 0
     (Provide ''f''
        [Bin Add (Call (Int_t 32) ''f'' [Variable (Int_t 32) ''x'', Variable (Int_t 32) ''y''] Call_Halide)
           (Call (Int_t 32) ''g'' [Variable (Int_t 32) ''x'', Variable (Int_t 32) ''y''] Call_Halide)]
        [Bin Add (Variable (Int_t 32) ''x'') (IntImm 2), Variable (Int_t 32) ''y''])
   \<and> FoldStorageOfFunction syntactic_oracles ''f'' 0 (IntImm 4)
     (Provide ''f''
        [Bin Add (Call (Int_t 32) ''f'' [Variable (Int_t 32) ''x'', Variable (Int_t 32) ''y''] Call_Halide)
           (Call (Int_t 32) ''g'' [Variable (Int_t 32) ''x'', Variable (Int_t 32) ''y''] Call_Halide)]
        [Bin Add (Variable (Int_t 32) ''x'') (IntImm 2), Variable (Int_t 32) ''y''])
   = Inr (Provide ''f''
        [Bin Add
           (Call (Int_t 32) ''f''
              [Bin Mod (Variable (Int_t 32) ''x'') (IntImm 4), Variable (Int_t 32) ''y''] Call_Halide)
           (Call (Int_t 32) ''g'' [Variable (Int_t 32) ''x'', Variable (Int_t 32) ''y''] Call_Halide)]
        [Bin Mod (Bin Add (Variable (Int_t 32) ''x'') (IntImm 2)) (IntImm 4), Variable (Int_t 32) ''y''],
        False)"
  using FoldStorageOfFunction_rewrites_accesses [of "''f''" 0
      "Provide ''f''
        [Bin Add (Call (Int_t 32) ''f'' [Variable (Int_t 32) ''x'', Variable (Int_t 32) ''y''] Call_Halide)
           (Call (Int_t 32) ''g'' [Variable (Int_t 32) ''x'', Variable (Int_t 32) ''y''] Call_Halide)]
        [Bin Add (Variable (Int_t 32) ''x'') (IntImm 2), Variable (Int_t 32) ''y'']"
      syntactic_oracles "IntImm 4"]
  by (simp add: syntactic_oracles_def)

text \<open>
  C4. The prepass does not respect shadowing when the inner binding is not a constant:
  the inner \<^verbatim>\<open>LetStmt\<close> leaves the scope as it is, so the constant of an enclosing
  binding of the same name is still substituted in its body. Here the use of \<open>x\<close> under
  \<open>let x = y\<close> is replaced by the \<open>5\<close> of the outer \<open>let x = 5\<close>.
\<close>

theorem inner_binding_not_shadowing:
  "SubstituteInConstants syntactic_oracles []
     (LetStmt ''x'' (IntImm 5)
        (LetStmt ''x'' (Variable (Int_t 32) ''y'')
           (Evaluate (Variable (Int_t 32) ''x''))))
   = LetStmt ''x'' (IntImm 5)
       (LetStmt ''x'' (Variable (Int_t 32) ''y'') (Evaluate (IntImm 5)))"
  by (simp add: syntactic_oracles_def Let_def)







text \<open>
  C7. For an allocation whose buffer handle occurs in the scope, once the traversal of
  the body (for the allocations nested in it) has returned \<open>body1\<close>: if no storage
  dimension of the buffer declares a fold factor, the visitor returns the allocation with
  its declared bounds and with \<open>body1\<close> as it is (the planner is not run for this buffer,
  no bound is replaced, no semaphore is bound); if some dimension declares one, it stops
  with the user error for the first such dimension. A user error is raised exactly in
  the second case.
\<close>

theorem special_buffer_left_unfolded:
  assumes "IsBufferSpecial name (Realize name types bounds condition body)"
    and "StorageFolding orc env body counter = Inr (body1, same1, counter1)"
    and "func = (case env name of Some f \<Rightarrow> f | None \<Rightarrow> Function_default)"
  shows "((\<forall>i \<in> set (storage_dims func). fold_factor i = None) \<longrightarrow>
            StorageFolding orc env (Realize name types bounds condition body) counter
              = Inr (Realize name types bounds condition body1, same1, counter1))
         \<and> ((\<exists>i \<in> set (storage_dims func). fold_factor i \<noteq> None) \<longrightarrow>
            (\<exists>i \<in> set (storage_dims func). fold_factor i \<noteq> None \<and>
               StorageFolding orc env (Realize name types bounds condition body) counter
                 = Inl (cannot_be_folded i name)))
         \<and> ((\<exists>msg. StorageFolding orc env (Realize name types bounds condition body) counter
                      = Inl (UserError msg))
              \<longleftrightarrow> (\<exists>i \<in> set (storage_dims func). fold_factor i \<noteq> None))"
proof -
  have b: "same1 \<Longrightarrow> body1 = body"
    using StorageFolding_same [of orc env body counter body1 counter1] assms(2) by simp
  show ?thesis
  proof (cases "find (\<lambda>i. fold_factor i \<noteq> None) (storage_dims func)")
    case None
    then have n: "\<forall>i \<in> set (storage_dims func). fold_factor i = None"
      by (simp add: find_None_iff_all)
    from None assms b have
      "StorageFolding orc env (Realize name types bounds condition body) counter
         = Inr (Realize name types bounds condition body1, same1, counter1)"
      by (auto simp: Let_def)
    with n show ?thesis by auto
  next
    case (Some i)
    then have i: "i \<in> set (storage_dims func)" "fold_factor i \<noteq> None"
      by (auto simp: find_Some_iff)
    from Some assms have
      "StorageFolding orc env (Realize name types bounds condition body) counter
         = Inl (cannot_be_folded i name)"
      by (auto simp: Let_def)
    with i show ?thesis by (auto simp: cannot_be_folded_def)
  qed
qed

theorem special_buffer_left_unfolded_witness:
  "IsBufferSpecial ''f'' (Realize ''f'' [Int_t 32] [(IntImm 0, IntImm 10)] (IntImm 1) extern_body)
   \<and> StorageFolding syntactic_oracles serial_schedule extern_body 0 = Inr (extern_body, True, 0)
   \<and> StorageFolding syntactic_oracles serial_schedule
        (Realize ''f'' [Int_t 32] [(IntImm 0, IntImm 10)] (IntImm 1) extern_body) 0
       = Inr (Realize ''f'' [Int_t 32] [(IntImm 0, IntImm 10)] (IntImm 1) extern_body, True, 0)
   \<and> StorageFolding syntactic_oracles explicit_schedule
        (Realize ''f'' [Int_t 32] [(IntImm 0, IntImm 10)] (IntImm 1) extern_body) 0
       = Inl (UserError
           (''Dimension x of f cannot be folded because it is accessed by extern or device stages.''
            @ [CHR 0x0A]))"
proof -
  have s: "IsBufferSpecial ''f''
             (Realize ''f'' [Int_t 32] [(IntImm 0, IntImm 10)] (IntImm 1) extern_body)"
    by (simp add: extern_body_def)
  have b: "StorageFolding syntactic_oracles env extern_body 0 = Inr (extern_body, True, 0)" for env
    by (simp add: extern_body_def)
  have f1: "\<lparr>func_name = ''f'',
             storage_dims = [\<lparr>var = ''x'', fold_factor = None, fold_forward = True\<rparr>],
             async = False\<rparr>
           = (case serial_schedule ''f'' of Some f \<Rightarrow> f | None \<Rightarrow> Function_default)"
    by (simp add: serial_schedule_def)
  have f2: "\<lparr>func_name = ''f'',
             storage_dims = [\<lparr>var = ''x'', fold_factor = Some (IntImm 4), fold_forward = True\<rparr>],
             async = False\<rparr>
           = (case explicit_schedule ''f'' of Some f \<Rightarrow> f | None \<Rightarrow> Function_default)"
    by (simp add: explicit_schedule_def)
  from special_buffer_left_unfolded [OF s b [of serial_schedule] f1]
    special_buffer_left_unfolded [OF s b [of explicit_schedule] f2] s b [of serial_schedule]
  show ?thesis
    by (simp add: cannot_be_folded_def)
qed

text \<open>
  C8. The semaphore of an asynchronous fold: with \<open>fudge\<close> the simplified substitution of
  the loop's min (the variable \<open>loop_min\<close>) into \<open>extent - to_acquire\<close>, the initial count
  is \<open>factor - fudge\<close> and the amount acquired is \<open>to_acquire\<close> when \<open>fudge\<close> is a constant;
  otherwise the initial count is \<open>factor\<close> and the amount acquired is a conditional that
  evaluates to the whole extent on the first iteration (loop variable at the loop's min)
  and to the per-step amount on every later one.
\<close>

theorem semaphore_initial_count:
  assumes "async_fold orc func op_name can_fold_forwards factor extent ax body counter
             = (sema, body', counter')"
    and "to_acquire = fst (semaphore_amounts orc op_name can_fold_forwards ax)"
    and "to_release = snd (semaphore_amounts orc op_name can_fold_forwards ax)"
    and "fudge = simplify orc (substitute orc op_name (loop_min op_name) (Bin Sub extent to_acquire))"
    and "release = Evaluate (Call (Int_t 32) ''halide_semaphore_release''
                     [sema_var sema, to_release] Call_Extern)"
    and "first_or_delta = Select (Bin GT (loop_var op_name) (loop_min op_name))
                            (likely to_acquire) extent"
  shows "(is_const orc fudge \<longrightarrow>
            sema_init sema = Bin Sub factor fudge
            \<and> body' = Acquire (sema_var sema) to_acquire (Block body release))
         \<and> (\<not> is_const orc fudge \<longrightarrow>
            sema_init sema = factor
            \<and> body' = Acquire (sema_var sema) first_or_delta (Block body release))
         \<and> (\<forall>env. env op_name \<le> env (op_name @ ''.loop_min'') \<longrightarrow>
               eval env first_or_delta = eval env extent)
         \<and> (\<forall>env. env op_name > env (op_name @ ''.loop_min'') \<longrightarrow>
               eval env first_or_delta = eval env to_acquire)"
  using assms
  by (auto simp: async_fold_def fudge_of_def Let_def split_beta loop_var_def loop_min_def likely_def)

theorem semaphore_initial_count_witness:
  "async_fold syntactic_oracles
     \<lparr>func_name = ''f'',
      storage_dims = [\<lparr>var = ''x'', fold_factor = None, fold_forward = True\<rparr>],
      async = True\<rparr>
     ''x'' True (IntImm 4) (IntImm 3) window_bounds (Evaluate (IntImm 0)) 0
   = (\<lparr>sema_name = ''f.folding_semaphore._0'',
       sema_var = Variable Handle_t ''f.folding_semaphore._0'',
       sema_init = IntImm 4\<rparr>,
      Acquire (Variable Handle_t ''f.folding_semaphore._0'')
        (Select (Bin GT (Variable (Int_t 32) ''x'') (Variable (Int_t 32) ''x.loop_min''))
           (Call (Int_t 32) ''likely''
              [Bin Sub (Bin Add (Variable (Int_t 32) ''x'') (IntImm 2))
                 (Bin Add (Bin Sub (Variable (Int_t 32) ''x'') (IntImm 1)) (IntImm 2))]
              Call_PureIntrinsic)
           (IntImm 3))
        (Block (Evaluate (IntImm 0))
           (Evaluate
              (Call (Int_t 32) ''halide_semaphore_release''
                 [Variable Handle_t ''f.folding_semaphore._0'',
                  Bin Sub (Bin Add (Variable (Int_t 32) ''x'') (IntImm 1))
                    (Variable (Int_t 32) ''x'')]
                 Call_Extern))),
      1)
   \<and> \<not> is_const syntactic_oracles
         (simplify syntactic_oracles
            (substitute syntactic_oracles ''x'' (loop_min ''x'')
               (Bin Sub (IntImm 3)
                  (fst (semaphore_amounts syntactic_oracles ''x'' True window_bounds)))))
   \<and> eval ((\<lambda>n. 0)(''x'' := 0))
        (Select (Bin GT (loop_var ''x'') (loop_min ''x''))
           (likely (fst (semaphore_amounts syntactic_oracles ''x'' True window_bounds)))
           (IntImm 3)) = Some 3
   \<and> eval ((\<lambda>n. 0)(''x'' := 5))
        (Select (Bin GT (loop_var ''x'') (loop_min ''x''))
           (likely (fst (semaphore_amounts syntactic_oracles ''x'' True window_bounds)))
           (IntImm 3)) = Some 1"
  using semaphore_initial_count [of syntactic_oracles
      "\<lparr>func_name = ''f'',
        storage_dims = [\<lparr>var = ''x'', fold_factor = None, fold_forward = True\<rparr>],
        async = True\<rparr>"
      "''x''" True "IntImm 4" "IntImm 3" window_bounds "Evaluate (IntImm 0)" 0
      "\<lparr>sema_name = ''f.folding_semaphore._0'',
        sema_var = Variable Handle_t ''f.folding_semaphore._0'',
        sema_init = IntImm 4\<rparr>"]
  by (simp add: syntactic_oracles_def async_fold_def semaphore_amounts_def fudge_of_def
      unique_name_def digit_def window_bounds_def loop_var_def loop_min_def likely_def Let_def)

text \<open>
  C9. A loop whose kind is neither serial nor unrolled is returned as the very node the
  planner was given: the body is not rewritten, no fold is recorded (the list of folds
  and the name counter come back as they went in), and, the body never being visited,
  no loop inside it is considered.
\<close>

theorem parallel_loop_returned_unchanged:
  assumes "ft \<noteq> Serial" and "ft \<noteq> Unrolled"
  shows "AttemptStorageFoldingOfFunction orc func explicit_only (For n lo ext ft api b)
           dims_folded counter
         = Inr (For n lo ext ft api b, True, dims_folded, counter)"
  using assms by simp

theorem parallel_loop_returned_unchanged_witness:
  "Parallel \<noteq> Serial \<and> Parallel \<noteq> Unrolled \<and>
   AttemptStorageFoldingOfFunction syntactic_oracles
     \<lparr>func_name = ''f'', storage_dims = [], async = False\<rparr> False
     (For ''y'' (IntImm 0) (IntImm 8) Parallel DeviceAPI_None
        (For ''x'' (IntImm 0) (IntImm 8) Serial DeviceAPI_None
           (Provide ''f'' [IntImm 1] [Variable (Int_t 32) ''x'', Variable (Int_t 32) ''y''])))
     [] 0
   = Inr (For ''y'' (IntImm 0) (IntImm 8) Parallel DeviceAPI_None
        (For ''x'' (IntImm 0) (IntImm 8) Serial DeviceAPI_None
           (Provide ''f'' [IntImm 1] [Variable (Int_t 32) ''x'', Variable (Int_t 32) ''y''])),
        True, [], 0)"
  using parallel_loop_returned_unchanged [of Parallel] by simp

text \<open>
  C10. A call to the folded buffer's name whose call type is not \<^verbatim>\<open>Call::Halide\<close>
  receives no index rewrite of its own: its arguments are only traversed, and the node
  comes back identical when they contain no read of the buffer. A write to the buffer is
  rewritten at position \<open>d\<close> on the name alone.
\<close>

theorem read_rewritten_only_for_Halide_calls:
  assumes "ct \<noteq> Call_Halide"
    and "\<forall>a \<in> set args. reads_in_range func d a"
    and "\<forall>a \<in> set vals. reads_in_range func d a"
    and "d < length args"
  shows "FoldStorageOfFunction_expr orc func d factor (Call t func args ct)
           = Inr (Call t func (map (folded_expr orc func d factor) args) ct,
                  \<not> (\<exists>a \<in> set args. reads func a))
         \<and> FoldStorageOfFunction orc func d factor (Provide func vals args)
           = Inr (Provide func (map (folded_expr orc func d factor) vals)
                    ((map (folded_expr orc func d factor) args)
                       [d := fold_arg orc factor (map (folded_expr orc func d factor) args ! d)]),
                  False)"
proof -
  have "reads_in_range func d (Call t func args ct)"
    using assms by simp
  from FoldStorage_expr_folded [OF this, of orc factor] assms(1)
  have 1: "FoldStorageOfFunction_expr orc func d factor (Call t func args ct)
           = Inr (Call t func (map (folded_expr orc func d factor) args) ct,
                  \<not> (\<exists>a \<in> set args. reads func a))"
    by simp
  have "accesses_in_range func d (Provide func vals args)"
    using assms by simp
  from FoldStorage_folded [OF this, of orc factor]
  have 2: "FoldStorageOfFunction orc func d factor (Provide func vals args)
           = Inr (Provide func (map (folded_expr orc func d factor) vals)
                    ((map (folded_expr orc func d factor) args)
                       [d := fold_arg orc factor (map (folded_expr orc func d factor) args ! d)]),
                  False)"
    by (simp add: Let_def fold_arg_def)
  from 1 2 show ?thesis by simp
qed

theorem read_rewritten_only_for_Halide_calls_witness:
  "Call_Extern \<noteq> Call_Halide
   \<and> reads_in_range ''f'' 0 (Variable (Int_t 32) ''x'')
   \<and> reads_in_range ''f'' 0 (IntImm 1)
   \<and> 0 < length [Variable (Int_t 32) ''x'']
   \<and> FoldStorageOfFunction_expr syntactic_oracles ''f'' 0 (IntImm 4)
       (Call (Int_t 32) ''f'' [Variable (Int_t 32) ''x''] Call_Extern)
     = Inr (Call (Int_t 32) ''f'' [Variable (Int_t 32) ''x''] Call_Extern, True)
   \<and> FoldStorageOfFunction syntactic_oracles ''f'' 0 (IntImm 4)
       (Provide ''f'' [IntImm 1] [Variable (Int_t 32) ''x''])
     = Inr (Provide ''f'' [IntImm 1] [Bin Mod (Variable (Int_t 32) ''x'') (IntImm 4)], False)"
  using read_rewritten_only_for_Halide_calls [of Call_Extern "[Variable (Int_t 32) ''x'']" "''f''" 0
      "[IntImm 1]" syntactic_oracles "IntImm 4" "Int_t 32"]
  by (simp add: syntactic_oracles_def fold_arg_def)

end
